theory Spec2Isabelle
  imports Complex_Main "HOL-Library.Word"
begin

section \<open>Landmark importers of menpo.io.input.landmark\<close>

text \<open>
  A shallow embedding of the four landmark parsers (ASF, PTS, LM2, LJSON) of
  \<^verbatim>\<open>menpo/io/input/landmark.py\<close>. Each \<^verbatim>\<open>_parse_format\<close> method becomes a
  function from the text of the file (or, for LJSON, the document that \<^verbatim>\<open>json.load\<close>
  returned) to a trace of the effects on the file handle together with either the Python
  exception that ends the call or the values handed to the point-cloud constructor.
\<close>

subsection \<open>Exceptions, effects and results\<close>

text \<open>
  \<open>ValueError\<close> carries the message of the two places where this module raises it
  itself; \<open>LibValueError\<close> is a \<^verbatim>\<open>ValueError\<close> raised inside \<^verbatim>\<open>int\<close>, \<^verbatim>\<open>float\<close>, tuple
  unpacking or numpy, whose message is not part of this module.
\<close>

datatype py_error =
    IndexError
  | TypeError
  | NameError
  | OverflowError
  | ZeroDivisionError
  | KeyError string
  | LibValueError
  | ValueError string

datatype event = FileOpen | FileClose | DeprecationWarning

text \<open>
  A numpy boolean mask. \<^verbatim>\<open>np.squeeze\<close> of a \<open>1 \<times> 1\<close> row yields a zero-dimensional
  array, which is kept apart from a vector of length one.
\<close>

datatype bool_array = Vec "bool list" | Scalar0 bool

fun mask_entries :: "bool_array \<Rightarrow> bool list" where
  "mask_entries (Vec bs) = bs"
| "mask_entries (Scalar0 b) = [b]"

text \<open>
  Modelled from the spec: \<^verbatim>\<open>LandmarkGroup\<close> and \<^verbatim>\<open>LandmarkGroup.init_from_edges\<close> of
  \<^verbatim>\<open>menpo.shape\<close> are not part of the sources at hand. The specification describes the
  result of a parser as the triple handed to that constructor: the point array (one row
  per point), the connectivity argument (\<open>None\<close> is Python's \<^verbatim>\<open>None\<close>) and the ordered
  dictionary from label to mask. A result below is that triple.
\<close>

record 'f landmark_group =
  lg_points :: "'f list list"
  lg_edges :: "int list list option"
  lg_labels :: "(string \<times> bool_array) list"

definition bind_err :: "py_error + 'a \<Rightarrow> ('a \<Rightarrow> py_error + 'b) \<Rightarrow> py_error + 'b" where
  "bind_err m k = (case m of Inl e \<Rightarrow> Inl e | Inr x \<Rightarrow> k x)"

definition of_opt :: "py_error \<Rightarrow> 'a option \<Rightarrow> py_error + 'a" where
  "of_opt e v = (case v of None \<Rightarrow> Inl e | Some x \<Rightarrow> Inr x)"

subsection \<open>The Python and numpy primitives the module calls\<close>

text \<open>
  Floating-point values are kept abstract: \<open>'f\<close> is the type of a float, and the
  conversions and the arithmetic that the module takes from Python and numpy are the
  fields of an environment. Every theorem below holds for every environment, hence for
  IEEE doubles as well.
  \<^item> \<open>py_int s\<close> is \<^verbatim>\<open>int(s)\<close>, \<open>None\<close> when it raises \<^verbatim>\<open>ValueError\<close>;
  \<^item> \<open>py_float s\<close> is \<^verbatim>\<open>float(s)\<close>, likewise;
  \<^item> \<open>np_float_of_str s\<close> is the element conversion of \<^verbatim>\<open>np.array([..], dtype=np.float)\<close>
    on a string, \<open>np_float_of_int i\<close> the one on a Python int (\<open>None\<close> when the int does
    not fit a double and numpy raises \<^verbatim>\<open>OverflowError\<close>);
  \<^item> \<open>f_nan\<close> is \<^verbatim>\<open>np.nan\<close>;
  \<^item> \<open>f_sub_int x i\<close> is \<^verbatim>\<open>x - i\<close> and \<open>f_mul_int x i\<close> is \<^verbatim>\<open>x * i\<close> for a float \<open>x\<close> and an
    int \<open>i\<close>;
  \<^item> \<open>f_eq_int x i\<close> is \<^verbatim>\<open>x == i\<close>, and \<open>f_str x\<close> is \<^verbatim>\<open>'{}'.format(x)\<close>.
\<close>

record 'f pyenv =
  py_int :: "string \<Rightarrow> int option"
  py_float :: "string \<Rightarrow> 'f option"
  np_float_of_str :: "string \<Rightarrow> 'f option"
  np_float_of_int :: "int \<Rightarrow> 'f option"
  f_nan :: "'f"
  f_sub_int :: "'f \<Rightarrow> int \<Rightarrow> 'f"
  f_mul_int :: "'f \<Rightarrow> int \<Rightarrow> 'f"
  f_eq_int :: "'f \<Rightarrow> int \<Rightarrow> bool"
  f_str :: "'f \<Rightarrow> string"

subsection \<open>Strings: whitespace, split, splitlines\<close>

text \<open>
  A character is a code point below 256. \<open>py_isspace\<close> is \<^verbatim>\<open>str.isspace\<close> on that range;
  \<open>py_linebreak\<close> lists the line boundaries of \<^verbatim>\<open>str.splitlines\<close> other than the
  two-character \<^verbatim>\<open>\r\n\<close>.
\<close>

definition py_isspace :: "char \<Rightarrow> bool" where
  "py_isspace c = (c \<in> set [CHR 0x09, CHR 0x0A, CHR 0x0B, CHR 0x0C, CHR 0x0D,
     CHR 0x1C, CHR 0x1D, CHR 0x1E, CHR 0x1F, CHR 0x20, CHR 0x85, CHR 0xA0])"

definition py_linebreak :: "char \<Rightarrow> bool" where
  "py_linebreak c = (c \<in> set [CHR 0x0A, CHR 0x0B, CHR 0x0C, CHR 0x0D,
     CHR 0x1C, CHR 0x1D, CHR 0x1E, CHR 0x85])"

text \<open>\<^verbatim>\<open>s.split()\<close>: the maximal runs of non-whitespace characters, in order.\<close>

fun split_acc :: "string \<Rightarrow> string \<Rightarrow> string list" where
  "split_acc cur [] = (if cur = [] then [] else [rev cur])"
| "split_acc cur (c # cs) =
     (if py_isspace c
      then (if cur = [] then split_acc [] cs else rev cur # split_acc [] cs)
      else split_acc (c # cur) cs)"

definition split_ws :: "string \<Rightarrow> string list" where
  "split_ws s = split_acc [] s"

text \<open>\<^verbatim>\<open>s.rstrip()\<close>: trailing whitespace removed.\<close>

definition rstrip :: "string \<Rightarrow> string" where
  "rstrip s = rev (dropWhile py_isspace (rev s))"

text \<open>
  \<^verbatim>\<open>s.splitlines()\<close>: lines without their terminators; \<^verbatim>\<open>\r\n\<close> is one boundary; no
  empty last line after a final terminator.
\<close>

fun splitlines_acc :: "string \<Rightarrow> string \<Rightarrow> string list" where
  "splitlines_acc cur [] = (if cur = [] then [] else [rev cur])"
| "splitlines_acc cur (c # cs) =
     (if c = CHR 0x0D
      then (case cs of
              [] \<Rightarrow> [rev cur]
            | d # ds \<Rightarrow> if d = CHR 0x0A then rev cur # splitlines_acc [] ds
                        else rev cur # splitlines_acc [] (d # ds))
      else if py_linebreak c then rev cur # splitlines_acc [] cs
      else splitlines_acc (c # cur) cs)"

definition splitlines :: "string \<Rightarrow> string list" where
  "splitlines s = splitlines_acc [] s"

text \<open>
  Iterating over a text file (\<^verbatim>\<open>for line in f\<close>): lines end after each \<^verbatim>\<open>\n\<close> and keep
  it; the last line may lack one.
\<close>

fun file_lines_acc :: "string \<Rightarrow> string \<Rightarrow> string list" where
  "file_lines_acc cur [] = (if cur = [] then [] else [rev cur])"
| "file_lines_acc cur (c # cs) =
     (if c = CHR 0x0A then rev (c # cur) # file_lines_acc [] cs
      else file_lines_acc (c # cur) cs)"

definition file_lines :: "string \<Rightarrow> string list" where
  "file_lines s = file_lines_acc [] s"

text \<open>The filter shared by ASF and LM2: drop blank lines and lines containing \<open>#\<close>.\<close>

definition content_lines :: "string \<Rightarrow> string list" where
  "content_lines text =
     filter (\<lambda>l. rstrip l \<noteq> [] \<and> CHR ''#'' \<notin> set l) (splitlines text)"

text \<open>\<^verbatim>\<open>itertools.groupby\<close>: maximal runs of consecutive elements with equal keys.\<close>

function groupby :: "('a \<Rightarrow> 'k) \<Rightarrow> 'a list \<Rightarrow> 'a list list" where
  "groupby f [] = []"
| "groupby f (x # xs) =
     (x # takeWhile (\<lambda>y. f y = f x) xs) # groupby f (dropWhile (\<lambda>y. f y = f x) xs)"
  by pat_completeness auto
termination
  by (relation "measure (\<lambda>(f, xs). length xs)")
     (auto simp: length_dropWhile_le less_Suc_eq_le)

text \<open>Decimal rendering of integers.\<close>

definition digit_char :: "nat \<Rightarrow> char" where
  "digit_char n = char_of (48 + n)"

function show_nat :: "nat \<Rightarrow> string" where
  "show_nat n = (if n < 10 then [digit_char n] else show_nat (n div 10) @ [digit_char (n mod 10)])"
  by pat_completeness auto
termination
  by (relation "measure id") auto

declare show_nat.simps [simp del]

text \<open>\<^verbatim>\<open>'{}'.format(i)\<close> for a Python int.\<close>

definition show_int :: "int \<Rightarrow> string" where
  "show_int i = (if i < 0 then CHR ''-'' # show_nat (nat (- i)) else show_nat (nat i))"

subsection \<open>ASF\<close>

record asf_path =
  path_num :: string
  path_type :: string
  xpos :: string
  ypos :: string
  point_num :: string
  connects_from :: string
  connects_to :: string

text \<open>
  \<^verbatim>\<open>ASFPath(*tokens[:7])\<close>: the named tuple takes exactly seven arguments, fewer raise
  \<^verbatim>\<open>TypeError\<close>.
\<close>

definition mk_ASFPath :: "string list \<Rightarrow> py_error + asf_path" where
  "mk_ASFPath toks =
     (case take 7 toks of
        [a, b, c, d, e, f, g] \<Rightarrow>
          Inr \<lparr>path_num = a, path_type = b, xpos = c, ypos = d,
               point_num = e, connects_from = f, connects_to = g\<rparr>
      | _ \<Rightarrow> Inl TypeError)"

text \<open>
  \<^verbatim>\<open>[ASFPath(*landmarks[i].split()[:7]) for i in range(count)]\<close>: the first \<open>count\<close>
  lines in order; \<^verbatim>\<open>landmarks[i]\<close> raises \<^verbatim>\<open>IndexError\<close> once the lines run out.
\<close>

fun asf_split :: "nat \<Rightarrow> string list \<Rightarrow> py_error + asf_path list" where
  "asf_split 0 ls = Inr []"
| "asf_split (Suc n) [] = Inl IndexError"
| "asf_split (Suc n) (l # ls) =
     bind_err (mk_ASFPath (split_ws l)) (\<lambda>p.
     bind_err (asf_split n ls) (\<lambda>ps. Inr (p # ps)))"

definition isolated :: "asf_path \<Rightarrow> bool" where
  "isolated v = (connects_from v = connects_to v \<and> connects_to v = point_num v)"

text \<open>
  The inner loop over the vertices of one path: the coordinates \<open>(x, y)\<close> in record
  order and the edges appended to \<open>connectivity\<close>.
\<close>

fun asf_vertices ::
  "'f pyenv \<Rightarrow> asf_path list \<Rightarrow> py_error + (('f \<times> 'f) list \<times> (int \<times> int) list)" where
  "asf_vertices env [] = Inr ([], [])"
| "asf_vertices env (v # vs) =
     bind_err (of_opt LibValueError (py_float env (xpos v))) (\<lambda>x.
     bind_err (of_opt LibValueError (py_float env (ypos v))) (\<lambda>y.
     bind_err (if \<not> isolated v
               then bind_err (of_opt LibValueError (py_int env (point_num v))) (\<lambda>a.
                    bind_err (of_opt LibValueError (py_int env (connects_to v))) (\<lambda>b.
                    Inr [(a, b)]))
               else Inr []) (\<lambda>es.
     bind_err (asf_vertices env vs) (\<lambda>(ps, es').
     Inr ((x, y) # ps, es @ es')))))"

text \<open>
  The edge appended after the vertices of a path: \<open>pt\<close> is the variable \<^verbatim>\<open>path_type\<close>
  (\<open>None\<close> while it is unbound).
\<close>

definition asf_closing ::
  "'f pyenv \<Rightarrow> string option \<Rightarrow> asf_path list \<Rightarrow> py_error + (int \<times> int) list" where
  "asf_closing env pt path =
     (case pt of
        None \<Rightarrow> Inl NameError
      | Some t \<Rightarrow>
          if t = ''0''
          then (if path = [] then Inl IndexError
                else bind_err (of_opt LibValueError (py_int env (point_num (last path)))) (\<lambda>a.
                     bind_err (of_opt LibValueError (py_int env (point_num (hd path)))) (\<lambda>b.
                     Inr [(a, b)])))
          else Inr [])"

fun asf_paths ::
  "'f pyenv \<Rightarrow> string option \<Rightarrow> asf_path list list \<Rightarrow>
     py_error + (('f \<times> 'f) list \<times> (int \<times> int) list)" where
  "asf_paths env pt [] = Inr ([], [])"
| "asf_paths env pt (path # paths) =
     (let pt' = (if path \<noteq> [] then Some (path_type (hd path)) else pt) in
      bind_err (asf_vertices env path) (\<lambda>(ps, es).
      bind_err (asf_closing env pt' path) (\<lambda>ce.
      bind_err (asf_paths env pt' paths) (\<lambda>(ps', es').
      Inr (ps @ ps', es @ ce @ es')))))"

text \<open>\<^verbatim>\<open>np.vstack\<close> of a list of pairs: one row per pair; an empty list raises.\<close>

definition np_vstack :: "(int \<times> int) list \<Rightarrow> py_error + int list list" where
  "np_vstack es = (if es = [] then Inl LibValueError else Inr (map (\<lambda>(a, b). [a, b]) es))"

text \<open>
  Modelled from the spec: \<^verbatim>\<open>Scale(np.array(asset.shape)).apply(points)\<close> of
  \<^verbatim>\<open>menpo.transform\<close>, which is not part of the sources at hand. The specification says
  that every coordinate is multiplied by the corresponding dimension of the asset's
  shape; a shape whose length differs from the two columns of the points has no
  corresponding dimensions and is rejected.
\<close>

definition scale_apply ::
  "'f pyenv \<Rightarrow> int list \<Rightarrow> 'f list list \<Rightarrow> py_error + 'f list list" where
  "scale_apply env shape pts =
     (if length shape \<noteq> 2 then Inl LibValueError
      else Inr (map (\<lambda>row. map2 (f_mul_int env) row shape) pts))"

definition asf_body ::
  "'f pyenv \<Rightarrow> string \<Rightarrow> int list option \<Rightarrow> py_error + 'f landmark_group" where
  "asf_body env text asset =
     (case content_lines text of
        [] \<Rightarrow> Inl IndexError
      | l0 # rest \<Rightarrow>
          bind_err (of_opt LibValueError (py_int env l0)) (\<lambda>count.
          if rest = [] then Inl IndexError
          else if count < 0 then Inl LibValueError
          else
            bind_err (asf_split (nat count) (butlast rest)) (\<lambda>split_landmarks.
            bind_err (asf_paths env None (groupby path_num split_landmarks))
              (\<lambda>(coords, connectivity).
            bind_err (np_vstack connectivity) (\<lambda>conn.
            bind_err (case asset of
                        None \<Rightarrow> Inr (map (\<lambda>(x, y). [y, x]) coords)
                      | Some shape \<Rightarrow> scale_apply env shape (map (\<lambda>(x, y). [y, x]) coords))
              (\<lambda>points.
            Inr \<lparr>lg_points = points, lg_edges = Some conn,
                 lg_labels = [(''all'', Vec (replicate (length points) True))]\<rparr>))))))"

text \<open>
  \<^verbatim>\<open>ASFImporter._parse_format\<close>: the file is read inside a \<^verbatim>\<open>with\<close> block, so it is
  closed before the text is parsed.
\<close>

definition ASF_parse_format ::
  "'f pyenv \<Rightarrow> string \<Rightarrow> int list option \<Rightarrow> event list \<times> (py_error + 'f landmark_group)" where
  "ASF_parse_format env text asset = ([FileOpen, FileClose], asf_body env text asset)"

text \<open>
  The count declared on the first content line and the records the parser reads (the
  first \<open>count\<close> lines after it, the last content line being the image name), as the
  statements below refer to them.
\<close>

definition asf_count :: "'f pyenv \<Rightarrow> string \<Rightarrow> int option" where
  "asf_count env text = (case content_lines text of [] \<Rightarrow> None | l0 # rest \<Rightarrow> py_int env l0)"

definition asf_records :: "'f pyenv \<Rightarrow> string \<Rightarrow> asf_path list" where
  "asf_records env text =
     (case content_lines text of
        [] \<Rightarrow> []
      | l0 # rest \<Rightarrow>
          (case py_int env l0 of
             None \<Rightarrow> []
           | Some count \<Rightarrow>
               (case asf_split (nat count) (butlast rest) of Inl e \<Rightarrow> [] | Inr ps \<Rightarrow> ps)))"

text \<open>The integers that the \<^verbatim>\<open>point_num\<close> and \<^verbatim>\<open>connects_to\<close> fields of some records denote.\<close>

definition field_ints :: "'f pyenv \<Rightarrow> asf_path list \<Rightarrow> int set" where
  "field_ints env vs =
     {i. \<exists>v \<in> set vs. py_int env (point_num v) = Some i \<or> py_int env (connects_to v) = Some i}"

subsection \<open>PTS\<close>

text \<open>
  Modelled from the spec: \<^verbatim>\<open>PTSImporter._build_points\<close> is abstract in the sources at
  hand (it raises \<^verbatim>\<open>NotImplementedError\<close>) and its overrides are not part of them. The
  specification names the two axis-ordering policies: image-style (y first) and
  mesh-style (x first).
\<close>

datatype axis_policy = ImageAxes | MeshAxes

definition build_points :: "axis_policy \<Rightarrow> 'f list \<Rightarrow> 'f list \<Rightarrow> 'f list list" where
  "build_points policy xs ys =
     (case policy of
        ImageAxes \<Rightarrow> map2 (\<lambda>x y. [y, x]) xs ys
      | MeshAxes \<Rightarrow> map2 (\<lambda>x y. [x, y]) xs ys)"

text \<open>
  The first loop: read lines up to and including the first one whose first token is
  \<open>{\<close>; the result is what is left of the file. A blank line has no first token.
\<close>

fun pts_seek :: "string list \<Rightarrow> py_error + string list" where
  "pts_seek [] = Inr []"
| "pts_seek (l # ls) =
     (case split_ws l of
        [] \<Rightarrow> Inl IndexError
      | t # ts \<Rightarrow> if t = ''{'' then Inr ls else pts_seek ls)"

text \<open>
  The second loop runs over every remaining line of the file: a line whose first token
  is \<open>}\<close> is skipped, every other line must unpack into two tokens.
\<close>

fun pts_collect :: "string list \<Rightarrow> py_error + (string list \<times> string list)" where
  "pts_collect [] = Inr ([], [])"
| "pts_collect (l # ls) =
     (case split_ws l of
        [] \<Rightarrow> Inl IndexError
      | t # ts \<Rightarrow>
          if t \<noteq> ''}''
          then (case take 2 (t # ts) of
                  [xp, yp] \<Rightarrow>
                    bind_err (pts_collect ls) (\<lambda>(xs, ys). Inr (xp # xs, yp # ys))
                | _ \<Rightarrow> Inl LibValueError)
          else pts_collect ls)"

text \<open>Converting a list element by element, stopping at the first failure.\<close>

fun map_err :: "('a \<Rightarrow> py_error + 'b) \<Rightarrow> 'a list \<Rightarrow> py_error + 'b list" where
  "map_err g [] = Inr []"
| "map_err g (x # xs) = bind_err (g x) (\<lambda>y. bind_err (map_err g xs) (\<lambda>ys. Inr (y # ys)))"

definition np_array_str :: "'f pyenv \<Rightarrow> string list \<Rightarrow> py_error + 'f list" where
  "np_array_str env = map_err (\<lambda>s. of_opt LibValueError (np_float_of_str env s))"

definition pts_body :: "'f pyenv \<Rightarrow> axis_policy \<Rightarrow> string \<Rightarrow> py_error + 'f list list" where
  "pts_body env policy text =
     bind_err (pts_seek (file_lines text)) (\<lambda>rest.
     bind_err (pts_collect rest) (\<lambda>(xs, ys).
     bind_err (np_array_str env xs) (\<lambda>xs'.
     bind_err (np_array_str env ys) (\<lambda>ys'.
     Inr (build_points policy (map (\<lambda>x. f_sub_int env x 1) xs')
                              (map (\<lambda>y. f_sub_int env y 1) ys'))))))"

text \<open>
  \<^verbatim>\<open>PTSImporter._parse_format\<close> opens the file with a plain \<^verbatim>\<open>open\<close> and has no
  \<^verbatim>\<open>close\<close> on any path.
\<close>

definition PTS_parse_format ::
  "'f pyenv \<Rightarrow> axis_policy \<Rightarrow> string \<Rightarrow> event list \<times> (py_error + 'f list list)" where
  "PTS_parse_format env policy text = ([FileOpen], pts_body env policy text)"

text \<open>
  The lines that the second loop sees, and its coordinate lines, for the statements
  below.
\<close>

definition pts_rest :: "string \<Rightarrow> string list" where
  "pts_rest text = (case pts_seek (file_lines text) of Inl e \<Rightarrow> [] | Inr rest \<Rightarrow> rest)"

definition closing :: "string \<Rightarrow> bool" where
  "closing l = (case split_ws l of [] \<Rightarrow> False | t # ts \<Rightarrow> t = ''}'')"

text \<open>
  The braced block (the lines before the first closing line), the point that a
  coordinate line denotes (its first two tokens converted, minus one, in the order of the
  policy), and the part of the parser that runs after the first loop.
\<close>

definition pts_block :: "string \<Rightarrow> string list" where
  "pts_block text = takeWhile (Not \<circ> closing) (pts_rest text)"

definition pts_row :: "'f pyenv \<Rightarrow> axis_policy \<Rightarrow> 'f \<Rightarrow> 'f \<Rightarrow> 'f list" where
  "pts_row env policy x y =
     (case policy of
        ImageAxes \<Rightarrow> [f_sub_int env y 1, f_sub_int env x 1]
      | MeshAxes \<Rightarrow> [f_sub_int env x 1, f_sub_int env y 1])"

definition pts_point :: "'f pyenv \<Rightarrow> axis_policy \<Rightarrow> string \<Rightarrow> 'f list option" where
  "pts_point env policy l =
     (case split_ws l of
        x # y # rest \<Rightarrow>
          (case np_float_of_str env x of
             None \<Rightarrow> None
           | Some a \<Rightarrow>
               (case np_float_of_str env y of
                  None \<Rightarrow> None
                | Some b \<Rightarrow> Some (pts_row env policy a b)))
      | _ \<Rightarrow> None)"

definition pts_finish ::
  "'f pyenv \<Rightarrow> axis_policy \<Rightarrow> string list \<Rightarrow> py_error + 'f list list" where
  "pts_finish env policy ls =
     bind_err (pts_collect ls) (\<lambda>(xs, ys).
     bind_err (np_array_str env xs) (\<lambda>xs'.
     bind_err (np_array_str env ys) (\<lambda>ys'.
     Inr (build_points policy (map (\<lambda>x. f_sub_int env x 1) xs')
                              (map (\<lambda>y. f_sub_int env y 1) ys')))))"

subsection \<open>LM2\<close>

text \<open>\<^verbatim>\<open>str.lower\<close> on code points below 256.\<close>

definition py_lower :: "char \<Rightarrow> char" where
  "py_lower c =
     (let n = (of_char c :: nat)
      in if (65 \<le> n \<and> n \<le> 90) \<or> (192 \<le> n \<and> n \<le> 222 \<and> n \<noteq> 215) then char_of (n + 32) else c)"

fun join :: "string \<Rightarrow> string list \<Rightarrow> string" where
  "join sep [] = []"
| "join sep [s] = s"
| "join sep (s # t # ts) = s @ sep @ join sep (t # ts)"

definition lm2_label :: "string \<Rightarrow> string" where
  "lm2_label l = join ''_'' (split_ws (map py_lower l))"

fun pop_labels :: "nat \<Rightarrow> string list \<Rightarrow> py_error + (string list \<times> string list)" where
  "pop_labels 0 ls = Inr ([], ls)"
| "pop_labels (Suc n) [] = Inl IndexError"
| "pop_labels (Suc n) (l # ls) =
     bind_err (pop_labels n ls) (\<lambda>(labs, rest). Inr (lm2_label l # labs, rest))"

fun pop_coords :: "'f pyenv \<Rightarrow> nat \<Rightarrow> string list \<Rightarrow> py_error + ('f \<times> 'f) list" where
  "pop_coords env 0 ls = Inr []"
| "pop_coords env (Suc n) [] = Inl IndexError"
| "pop_coords env (Suc n) (l # ls) =
     (case split_ws l of
        [] \<Rightarrow> Inl IndexError
      | p0 # ps \<Rightarrow>
          bind_err (of_opt LibValueError (py_float env p0)) (\<lambda>x.
          (case ps of
             [] \<Rightarrow> Inl IndexError
           | p1 # ps' \<Rightarrow>
               bind_err (of_opt LibValueError (py_float env p1)) (\<lambda>y.
               bind_err (pop_coords env n ls) (\<lambda>cs. Inr ((x, y) # cs))))))"

text \<open>
  \<^verbatim>\<open>np.eye(n).astype(np.bool)\<close>, split into its rows, each squeezed. Squeezing a row of
  length one leaves a zero-dimensional array.
\<close>

definition np_eye :: "nat \<Rightarrow> bool list list" where
  "np_eye n = map (\<lambda>i. map (\<lambda>j. j = i) [0..<n]) [0..<n]"

definition np_squeeze :: "bool list \<Rightarrow> bool_array" where
  "np_squeeze row = (case row of [b] \<Rightarrow> Scalar0 b | _ \<Rightarrow> Vec row)"

text \<open>
  An \<^verbatim>\<open>OrderedDict\<close> as an association list with distinct keys: assigning to a key that
  is present replaces its value in place, a new key is appended.
\<close>

fun od_set :: "('k \<times> 'v) list \<Rightarrow> 'k \<Rightarrow> 'v \<Rightarrow> ('k \<times> 'v) list" where
  "od_set [] k v = [(k, v)]"
| "od_set ((k', v') # kvs) k v =
     (if k' = k then (k, v) # kvs else (k', v') # od_set kvs k v)"

definition ordered_dict :: "('k \<times> 'v) list \<Rightarrow> ('k \<times> 'v) list" where
  "ordered_dict pairs = foldl (\<lambda>d (k, v). od_set d k v) [] pairs"

definition lm2_body :: "'f pyenv \<Rightarrow> string \<Rightarrow> py_error + 'f landmark_group" where
  "lm2_body env text =
     (case content_lines text of
        [] \<Rightarrow> Inl IndexError
      | l0 # t1 \<Rightarrow>
          (case split_ws l0 of
             [] \<Rightarrow> Inl IndexError
           | tok # toks \<Rightarrow>
               bind_err (of_opt LibValueError (py_int env tok)) (\<lambda>num_points.
               (case t1 of
                  [] \<Rightarrow> Inl IndexError
                | labels_str # t2 \<Rightarrow>
                    if labels_str \<noteq> ''Labels:''
                    then Inl (ValueError
                      (''LM2 landmarks are incorrectly formatted. Expected a list of labels '' @
                       ''beginning with '' @ [CHR 0x27] @ ''Labels:'' @ [CHR 0x27] @
                       '' but found '' @ [CHR 0x27] @ labels_str @ [CHR 0x27]))
                    else
                      bind_err (pop_labels (nat num_points) t2) (\<lambda>(labels, t3).
                      (case t3 of
                         [] \<Rightarrow> Inl IndexError
                       | coords_str # t4 \<Rightarrow>
                           if coords_str \<noteq> ''2D Image coordinates:''
                           then Inl (ValueError
                             (''LM2 landmarks are incorrectly formatted. Expected a list of '' @
                              ''coordinates beginning with '' @ [CHR 0x27] @
                              ''2D Image coordinates:'' @ [CHR 0x27] @
                              '' but found '' @ [CHR 0x27] @ coords_str @ [CHR 0x27]))
                           else
                             bind_err (pop_coords env (nat num_points) t4) (\<lambda>coords.
                             if num_points < 0 then Inl LibValueError
                             else if num_points = 0 then Inl ZeroDivisionError
                             else Inr \<lparr>lg_points = map (\<lambda>(x, y). [y, x]) coords,
                                       lg_edges = Some [],
                                       lg_labels = ordered_dict
                                         (zip labels (map np_squeeze (np_eye (nat num_points))))\<rparr>)))))))"

text \<open>
  \<^verbatim>\<open>LM2Importer._parse_format\<close>. After the coordinates, \<^verbatim>\<open>np.eye\<close> rejects a negative
  count with \<^verbatim>\<open>ValueError\<close>, and for a count of zero \<^verbatim>\<open>np.vsplit(masks, 0)\<close> divides by
  its number of sections and raises \<^verbatim>\<open>ZeroDivisionError\<close>. The adjacency matrix handed
  over is empty, which \<open>lg_edges = Some []\<close> records.
\<close>

definition LM2_parse_format ::
  "'f pyenv \<Rightarrow> string \<Rightarrow> event list \<times> (py_error + 'f landmark_group)" where
  "LM2_parse_format env text = ([FileOpen, FileClose], lm2_body env text)"

text \<open>
  The count and the labels read from an LM2 text, for the statements below: the first
  token of the first content line, and the normalised lines after the \<^verbatim>\<open>Labels:\<close> line.
\<close>

definition lm2_count :: "'f pyenv \<Rightarrow> string \<Rightarrow> int option" where
  "lm2_count env text =
     (case content_lines text of
        [] \<Rightarrow> None
      | l0 # t1 \<Rightarrow> (case split_ws l0 of [] \<Rightarrow> None | tok # toks \<Rightarrow> py_int env tok))"

definition lm2_labels :: "'f pyenv \<Rightarrow> string \<Rightarrow> string list" where
  "lm2_labels env text =
     (case lm2_count env text of
        None \<Rightarrow> []
      | Some n \<Rightarrow> map lm2_label (take (nat n) (drop 2 (content_lines text))))"

subsection \<open>LJSON\<close>

text \<open>
  The input is the document that \<^verbatim>\<open>json.load\<close> returned, typed after the LJSON
  schema. A number is a Python int or a float; a coordinate is a number or \<^verbatim>\<open>null\<close>
  (\<open>None\<close>); an entry of a points list is a list of coordinates or \<^verbatim>\<open>null\<close>. The top-level
  keys may be absent. The \<^verbatim>\<open>version\<close> field may hold any JSON value: a scalar, or a
  list or object (which Python cannot hash); an absent field reads as \<^verbatim>\<open>None\<close>, as
  \<^verbatim>\<open>null\<close> does. The indices of a version 1 connectivity list are integers of the
  int64 range, the range on which \<^verbatim>\<open>np.asarray\<close> builds an int64 array: an index \<open>i\<close> is
  the word \<open>word_of_int i\<close> and is read back with \<open>sint\<close>.
\<close>

datatype 'f jnum = JInt int | JFloat 'f

type_synonym 'f jpoint = "'f jnum option list option"

datatype 'f jscalar = SNull | SBool bool | SInt int | SFloat 'f | SStr string

datatype 'f jversion = Hashable "'f jscalar" | Unhashable

record 'f group =
  g_label :: string
  g_landmarks :: "'f jpoint list"
  g_connectivity :: "64 word list list option"

record 'f landmarks_v2 =
  lm_points :: "'f jpoint list"
  lm_connectivity :: "int list list option"

record label_v2 =
  lb_label :: string
  lb_mask :: "int list"

record 'f ljson =
  d_version :: "'f jversion"
  d_groups :: "'f group list option"
  d_landmarks :: "'f landmarks_v2 option"
  d_labels :: "label_v2 list option"

text \<open>\<^verbatim>\<open>chain(*points_list)\<close>: iterating an entry that is \<^verbatim>\<open>None\<close> raises \<^verbatim>\<open>TypeError\<close>.\<close>

fun chain :: "'f jpoint list \<Rightarrow> py_error + 'f jnum option list" where
  "chain [] = Inr []"
| "chain (None # ps) = Inl TypeError"
| "chain (Some cs # ps) = bind_err (chain ps) (\<lambda>r. Inr (cs @ r))"

definition np_float :: "'f pyenv \<Rightarrow> 'f jnum option \<Rightarrow> py_error + 'f" where
  "np_float env x =
     (case x of
        None \<Rightarrow> Inr (f_nan env)
      | Some (JInt i) \<Rightarrow> of_opt OverflowError (np_float_of_int env i)
      | Some (JFloat v) \<Rightarrow> Inr v)"

function chunks :: "nat \<Rightarrow> 'a list \<Rightarrow> 'a list list" where
  "chunks d xs = (if d = 0 \<or> xs = [] then [] else take d xs # chunks d (drop d xs))"
  by pat_completeness auto
termination
  by (relation "measure (\<lambda>(d, xs). length xs)") auto

declare chunks.simps [simp del]

text \<open>
  \<^verbatim>\<open>_ljson_parse_null_values\<close>: the array is built before \<^verbatim>\<open>points_list[0]\<close> is read;
  \<^verbatim>\<open>reshape([-1, d])\<close> needs \<open>d > 0\<close> dividing the number of values.
\<close>

definition ljson_parse_null_values ::
  "'f pyenv \<Rightarrow> 'f jpoint list \<Rightarrow> py_error + 'f list list" where
  "ljson_parse_null_values env points_list =
     bind_err (chain points_list) (\<lambda>flat.
     bind_err (map_err (np_float env) flat) (\<lambda>arr.
     (case points_list of
        [] \<Rightarrow> Inl IndexError
      | p0 # ps \<Rightarrow>
          (let d = (case p0 of None \<Rightarrow> 0 | Some cs \<Rightarrow> length cs)
           in if d = 0 \<or> length arr mod d \<noteq> 0 then Inl LibValueError
              else Inr (chunks d arr)))))"

text \<open>
  \<^verbatim>\<open>offset + np.asarray(conn)\<close> followed by \<^verbatim>\<open>tolist()\<close>, run only when \<^verbatim>\<open>conn\<close> is
  truthy. The array is an int64 array and the sum is computed in its 64-bit arithmetic,
  which wraps around silently; \<^verbatim>\<open>tolist\<close> reads the elements as signed integers. The
  offset is a count of list elements, below \<open>2 ^ 63\<close>. Rows of unequal length make an
  array of list objects, and adding an int to a list raises \<^verbatim>\<open>TypeError\<close>.
\<close>

definition shift_conn :: "nat \<Rightarrow> 64 word list list option \<Rightarrow> py_error + int list list" where
  "shift_conn offset conn =
     (case conn of
        None \<Rightarrow> Inr []
      | Some rows \<Rightarrow>
          if rows = [] then Inr []
          else if (\<exists>r \<in> set rows. length r \<noteq> length (hd rows)) then Inl TypeError
          else Inr (map (map (\<lambda>i. sint (word_of_nat offset + i))) rows))"

text \<open>
  The loop over the groups of a version 1 document, started at \<open>offset\<close>: all points, the
  label and slice bounds of each group, and the shifted connectivity.
\<close>

fun v1_groups ::
  "nat \<Rightarrow> 'f group list \<Rightarrow>
     py_error + ('f jpoint list \<times> (string \<times> nat \<times> nat) list \<times> int list list)" where
  "v1_groups offset [] = Inr ([], [], [])"
| "v1_groups offset (g # gs) =
     bind_err (shift_conn offset (g_connectivity g)) (\<lambda>conn.
     bind_err (v1_groups (offset + length (g_landmarks g)) gs) (\<lambda>(pts, slices, cs).
     Inr (g_landmarks g @ pts,
          (g_label g, offset, offset + length (g_landmarks g)) # slices,
          conn @ cs)))"

text \<open>\<^verbatim>\<open>mask = np.zeros(n); mask[slice(a, b)] = True\<close>: slices clip to the array.\<close>

definition slice_mask :: "nat \<Rightarrow> nat \<times> nat \<Rightarrow> bool_array" where
  "slice_mask n s = Vec (map (\<lambda>i. fst s \<le> i \<and> i < snd s) [0..<n])"

definition parse_ljson_v1 :: "'f pyenv \<Rightarrow> 'f ljson \<Rightarrow> py_error + 'f landmark_group" where
  "parse_ljson_v1 env lms_dict =
     (case d_groups lms_dict of
        None \<Rightarrow> Inl (KeyError ''groups'')
      | Some gs \<Rightarrow>
          bind_err (v1_groups 0 gs) (\<lambda>(all_points, slices, connectivity).
          bind_err (ljson_parse_null_values env all_points) (\<lambda>points.
          Inr \<lparr>lg_points = points, lg_edges = Some connectivity,
               lg_labels = ordered_dict
                 (map (\<lambda>(label, l_slice). (label, slice_mask (length points) l_slice))
                      slices)\<rparr>)))"

text \<open>
  \<^verbatim>\<open>mask = np.zeros(n); mask[idxs] = True\<close> for a list of ints: an index counts from the
  end when negative and raises \<^verbatim>\<open>IndexError\<close> outside \<open>[-n, n)\<close>.
\<close>

definition index_mask :: "nat \<Rightarrow> int list \<Rightarrow> py_error + bool_array" where
  "index_mask n idxs =
     (if \<exists>i \<in> set idxs. i < - int n \<or> int n \<le> i then Inl IndexError
      else Inr (Vec (map (\<lambda>j. \<exists>i \<in> set idxs. (if i < 0 then i + int n else i) = int j)
                         [0..<n])))"

definition parse_ljson_v2 :: "'f pyenv \<Rightarrow> 'f ljson \<Rightarrow> py_error + 'f landmark_group" where
  "parse_ljson_v2 env lms_dict =
     (case d_landmarks lms_dict of
        None \<Rightarrow> Inl (KeyError ''landmarks'')
      | Some lm \<Rightarrow>
          bind_err (ljson_parse_null_values env (lm_points lm)) (\<lambda>points.
          (case d_labels lms_dict of
             None \<Rightarrow> Inl (KeyError ''labels'')
           | Some ls \<Rightarrow>
               bind_err (map_err (\<lambda>label. bind_err (index_mask (length points) (lb_mask label))
                                             (\<lambda>mask. Inr (lb_label label, mask))) ls)
                 (\<lambda>pairs.
               Inr \<lparr>lg_points = points, lg_edges = lm_connectivity lm,
                    lg_labels = ordered_dict pairs\<rparr>))))"

text \<open>
  \<^verbatim>\<open>_ljson_parser_for_version.get(v)\<close>: the keys are the ints 1 and 2, found by any value
  that compares equal to them (\<^verbatim>\<open>True == 1\<close>, \<^verbatim>\<open>1.0 == 1\<close>); a value that cannot be hashed
  raises \<^verbatim>\<open>TypeError\<close>.
\<close>

datatype ljson_parser = ParseV1 | ParseV2

definition py_eq_int :: "'f pyenv \<Rightarrow> 'f jscalar \<Rightarrow> int \<Rightarrow> bool" where
  "py_eq_int env v i =
     (case v of
        SInt j \<Rightarrow> j = i
      | SBool b \<Rightarrow> (if b then 1 else 0) = i
      | SFloat x \<Rightarrow> f_eq_int env x i
      | _ \<Rightarrow> False)"

definition ljson_parser_for_version ::
  "'f pyenv \<Rightarrow> 'f jversion \<Rightarrow> py_error + ljson_parser option" where
  "ljson_parser_for_version env v =
     (case v of
        Unhashable \<Rightarrow> Inl TypeError
      | Hashable s \<Rightarrow>
          Inr (if py_eq_int env s 1 then Some ParseV1
               else if py_eq_int env s 2 then Some ParseV2
               else None))"

text \<open>\<^verbatim>\<open>'{}'.format(v)\<close> for a scalar.\<close>

definition py_format :: "'f pyenv \<Rightarrow> 'f jscalar \<Rightarrow> string" where
  "py_format env v =
     (case v of
        SNull \<Rightarrow> ''None''
      | SBool b \<Rightarrow> (if b then ''True'' else ''False'')
      | SInt i \<Rightarrow> show_int i
      | SFloat x \<Rightarrow> f_str env x
      | SStr s \<Rightarrow> s)"

text \<open>
  \<^verbatim>\<open>LJSONImporter._parse_format\<close>: the document is loaded inside a \<^verbatim>\<open>with\<close> block; the
  version 1 parser first emits the deprecation warning.
\<close>

definition LJSON_parse_format ::
  "'f pyenv \<Rightarrow> string \<Rightarrow> 'f ljson \<Rightarrow> event list \<times> (py_error + 'f landmark_group)" where
  "LJSON_parse_format env filepath lms_dict =
     (case d_version lms_dict of
        Unhashable \<Rightarrow> ([FileOpen, FileClose], Inl TypeError)
      | Hashable v \<Rightarrow>
          (case ljson_parser_for_version env (Hashable v) of
             Inl e \<Rightarrow> ([FileOpen, FileClose], Inl e)
           | Inr None \<Rightarrow>
               ([FileOpen, FileClose],
                Inl (ValueError (filepath @ '' has unknown version '' @ py_format env v @
                                 '' must be 1, or 2'')))
           | Inr (Some ParseV1) \<Rightarrow>
               ([FileOpen, FileClose, DeprecationWarning], parse_ljson_v1 env lms_dict)
           | Inr (Some ParseV2) \<Rightarrow>
               ([FileOpen, FileClose], parse_ljson_v2 env lms_dict)))"

text \<open>
  The starting offset of group \<open>i\<close> as the specification words it: the number of points
  in all preceding groups. \<open>conn_rows\<close> are the local indices of a group as the integers of
  the document, and \<open>int64\<close> is the value of an integer in signed 64-bit arithmetic.
\<close>

definition group_offset :: "'f group list \<Rightarrow> nat \<Rightarrow> nat" where
  "group_offset gs i = sum_list (map (\<lambda>g. length (g_landmarks g)) (take i gs))"

definition conn_rows :: "'f group \<Rightarrow> int list list" where
  "conn_rows g = (case g_connectivity g of None \<Rightarrow> [] | Some rows \<Rightarrow> map (map sint) rows)"

definition int64 :: "int \<Rightarrow> int" where
  "int64 i = sint (word_of_int i :: 64 word)"

subsection \<open>An exact decimal environment for evaluating examples\<close>

text \<open>
  To run the definitions on concrete files, \<open>dec_env\<close> instantiates the environment with
  exact rational arithmetic: a float is a rational number or the not-a-number value, and
  \<^verbatim>\<open>int\<close> and \<^verbatim>\<open>float\<close> read plain decimal literals (an optional sign, digits, and for
  floats an optional fraction). It is used for examples only; no general theorem depends
  on it.
\<close>

datatype dfloat = DFin rat | DNaN

definition digit_val :: "char \<Rightarrow> nat option" where
  "digit_val c =
     (let n = (of_char c :: nat) in if 48 \<le> n \<and> n \<le> 57 then Some (n - 48) else None)"

fun digits_val :: "nat \<Rightarrow> string \<Rightarrow> nat option" where
  "digits_val acc [] = Some acc"
| "digits_val acc (c # cs) =
     (case digit_val c of None \<Rightarrow> None | Some d \<Rightarrow> digits_val (10 * acc + d) cs)"

definition dec_nat :: "string \<Rightarrow> nat option" where
  "dec_nat s = (if s = [] then None else digits_val 0 s)"

definition strip :: "string \<Rightarrow> string" where
  "strip s = dropWhile py_isspace (rstrip s)"

definition with_sign :: "(string \<Rightarrow> 'a option) \<Rightarrow> ('a \<Rightarrow> 'a) \<Rightarrow> string \<Rightarrow> 'a option" where
  "with_sign rd neg s =
     (case s of
        [] \<Rightarrow> None
      | c # cs \<Rightarrow> if c = CHR ''-'' then map_option neg (rd cs)
                  else if c = CHR ''+'' then rd cs
                  else rd s)"

definition dec_int :: "string \<Rightarrow> int option" where
  "dec_int s = with_sign (\<lambda>t. map_option int (dec_nat t)) uminus (strip s)"

definition dec_unsigned :: "string \<Rightarrow> rat option" where
  "dec_unsigned s =
     (let ip = takeWhile (\<lambda>c. c \<noteq> CHR ''.'') s;
          rest = dropWhile (\<lambda>c. c \<noteq> CHR ''.'') s
      in if rest = [] then map_option of_nat (dec_nat ip)
         else if ip = [] \<and> tl rest = [] then None
         else (case (digits_val 0 ip, digits_val 0 (tl rest)) of
                 (Some a, Some b) \<Rightarrow> Some (of_nat a + of_nat b / 10 ^ length (tl rest))
               | _ \<Rightarrow> None))"

definition dec_float :: "string \<Rightarrow> dfloat option" where
  "dec_float s = map_option DFin (with_sign dec_unsigned uminus (strip s))"

definition dfloat_map :: "(rat \<Rightarrow> rat) \<Rightarrow> dfloat \<Rightarrow> dfloat" where
  "dfloat_map g x = (case x of DFin r \<Rightarrow> DFin (g r) | DNaN \<Rightarrow> DNaN)"

definition dec_str :: "dfloat \<Rightarrow> string" where
  "dec_str x =
     (case x of
        DNaN \<Rightarrow> ''nan''
      | DFin r \<Rightarrow> show_int (fst (quotient_of r)) @ ''/'' @ show_int (snd (quotient_of r)))"

definition dec_env :: "dfloat pyenv" where
  "dec_env =
     \<lparr>py_int = dec_int,
      py_float = dec_float,
      np_float_of_str = dec_float,
      np_float_of_int = (\<lambda>i. Some (DFin (of_int i))),
      f_nan = DNaN,
      f_sub_int = (\<lambda>x i. dfloat_map (\<lambda>r. r - of_int i) x),
      f_mul_int = (\<lambda>x i. dfloat_map (\<lambda>r. r * of_int i) x),
      f_eq_int = (\<lambda>x i. x = DFin (of_int i)),
      f_str = dec_str\<rparr>"

subsection \<open>Example documents\<close>

text \<open>
  A version 2 document with a point of null coordinates, a version 1 document with two
  groups, a version 1 document whose second group connects the largest int64 index, and
  the third scenario of the specification, whose last entry is the null value itself.
\<close>

definition v2_example :: "dfloat ljson" where
  "v2_example =
     \<lparr>d_version = Hashable (SInt 2), d_groups = None,
      d_landmarks = Some \<lparr>lm_points = [Some [Some (JInt 0), Some (JInt 0)],
                                        Some [Some (JInt 1), Some (JInt 1)],
                                        Some [None, None]],
                          lm_connectivity = Some [[0, 1]]\<rparr>,
      d_labels = Some [\<lparr>lb_label = ''a'', lb_mask = [0, 1]\<rparr>,
                       \<lparr>lb_label = ''b'', lb_mask = [2]\<rparr>]\<rparr>"

definition v1_example :: "dfloat ljson" where
  "v1_example =
     \<lparr>d_version = Hashable (SInt 1),
      d_groups = Some [\<lparr>g_label = ''a'',
                        g_landmarks = [Some [Some (JInt 0), Some (JInt 0)],
                                       Some [Some (JInt 1), None]],
                        g_connectivity = Some [[0, 1]]\<rparr>,
                       \<lparr>g_label = ''b'',
                        g_landmarks = [Some [Some (JInt 5), Some (JInt 6)],
                                       Some [Some (JInt 7), Some (JInt 8)]],
                        g_connectivity = Some [[0, 1], [1, 0]]\<rparr>],
      d_landmarks = None, d_labels = None\<rparr>"


definition scenario3 :: "dfloat ljson" where
  "scenario3 =
     \<lparr>d_version = Hashable (SInt 2), d_groups = None,
      d_landmarks = Some \<lparr>lm_points = [Some [Some (JInt 0), Some (JInt 0)],
                                        Some [Some (JInt 1), Some (JInt 1)],
                                        None],
                          lm_connectivity = Some [[0, 1]]\<rparr>,
      d_labels = Some [\<lparr>lb_label = ''a'', lb_mask = [0, 1]\<rparr>,
                       \<lparr>lb_label = ''b'', lb_mask = [2]\<rparr>]\<rparr>"

section \<open>Properties\<close>

subsection \<open>Auxiliary facts\<close>

lemma bind_err_Inr: "bind_err m k = Inr y \<longleftrightarrow> (\<exists>x. m = Inr x \<and> k x = Inr y)"
  by (cases m) (simp_all add: bind_err_def)

lemma of_opt_Inr: "of_opt e v = Inr x \<longleftrightarrow> v = Some x"
  by (cases v) (simp_all add: of_opt_def)

lemma concat_groupby: "concat (groupby f xs) = xs"
  by (induction f xs rule: groupby.induct) simp_all

lemma groupby_nonempty: "p \<in> set (groupby f xs) \<Longrightarrow> p \<noteq> []"
  by (induction f xs rule: groupby.induct) auto

subsection \<open>ASF: points, edges and the empty accumulator\<close>

lemma asf_split_length: "asf_split n ls = Inr ps \<Longrightarrow> length ps = n"
  by (induction n ls arbitrary: ps rule: asf_split.induct) (auto simp: bind_err_Inr)

lemma field_ints_Cons: "field_ints env (v # vs) = field_ints env [v] \<union> field_ints env vs"
  by (auto simp: field_ints_def)

lemma field_ints_append: "field_ints env (us @ vs) = field_ints env us \<union> field_ints env vs"
  by (auto simp: field_ints_def)

lemma asf_vertices_props:
  "asf_vertices env vs = Inr (ps, es) \<Longrightarrow>
     length ps = length vs \<and>
     (\<forall>(a, b) \<in> set es. a \<in> field_ints env vs \<and> b \<in> field_ints env vs)"
proof (induction vs arbitrary: ps es)
  case Nil
  then show ?case by simp
next
  case (Cons v vs)
  then show ?case
    apply (subst (1 2) field_ints_Cons)
    apply (auto simp: bind_err_Inr of_opt_Inr split: if_splits)
    apply (auto simp: field_ints_def)
    done
qed

lemma asf_vertices_isolated:
  "asf_vertices env vs = Inr (ps, es) \<Longrightarrow> \<forall>v \<in> set vs. isolated v \<Longrightarrow> es = []"
  by (induction vs arbitrary: ps es) (auto simp: bind_err_Inr of_opt_Inr split: if_splits)

lemma asf_closing_props:
  "asf_closing env pt path = Inr ce \<Longrightarrow>
     \<forall>(a, b) \<in> set ce. a \<in> field_ints env path \<and> b \<in> field_ints env path"
  by (auto simp: asf_closing_def bind_err_Inr of_opt_Inr field_ints_def
           split: option.splits if_splits)

lemma asf_paths_props:
  "asf_paths env pt paths = Inr (ps, es) \<Longrightarrow>
     length ps = length (concat paths) \<and>
     (\<forall>(a, b) \<in> set es.
        a \<in> field_ints env (concat paths) \<and> b \<in> field_ints env (concat paths))"
proof (induction paths arbitrary: pt ps es)
  case Nil
  then show ?case by simp
next
  case (Cons path paths)
  from Cons.prems obtain ps1 es1 ce ps2 es2 pt' where
    v: "asf_vertices env path = Inr (ps1, es1)" and
    c: "asf_closing env pt' path = Inr ce" and
    r: "asf_paths env pt' paths = Inr (ps2, es2)" and
    e: "ps = ps1 @ ps2" "es = es1 @ ce @ es2"
    by (auto simp: bind_err_Inr Let_def)
  from asf_vertices_props[OF v] asf_closing_props[OF c] Cons.IH[OF r] e
  show ?case by (auto simp: field_ints_append)
qed

lemma asf_paths_no_edges:
  "asf_paths env pt paths = Inr (ps, es) \<Longrightarrow>
   \<forall>v \<in> set (concat paths). isolated v \<Longrightarrow>
   \<forall>p \<in> set paths. p \<noteq> [] \<and> path_type (hd p) \<noteq> ''0'' \<Longrightarrow> es = []"
proof (induction paths arbitrary: pt ps es)
  case Nil
  then show ?case by simp
next
  case (Cons path paths)
  from Cons.prems(1) obtain ps1 es1 ce ps2 es2 where
    v: "asf_vertices env path = Inr (ps1, es1)" and
    c: "asf_closing env (if path \<noteq> [] then Some (path_type (hd path)) else pt) path = Inr ce" and
    r: "asf_paths env (if path \<noteq> [] then Some (path_type (hd path)) else pt) paths
          = Inr (ps2, es2)" and
    e: "es = es1 @ ce @ es2"
    by (auto simp: bind_err_Inr Let_def)
  have "es1 = []" using asf_vertices_isolated[OF v] Cons.prems(2) by simp
  moreover have "ce = []" using c Cons.prems(3) by (auto simp: asf_closing_def)
  moreover have "es2 = []" using Cons.IH[OF r] Cons.prems(2,3) by simp
  ultimately show ?case using e by simp
qed

lemma scale_apply_length: "scale_apply env shape pts = Inr pts' \<Longrightarrow> length pts' = length pts"
  by (auto simp: scale_apply_def split: if_splits)

lemma asf_body_Inr:
  assumes "asf_body env text asset = Inr r"
  obtains l0 rest count coords es where
    "content_lines text = l0 # rest" "py_int env l0 = Some count" "0 \<le> count"
    "asf_split (nat count) (butlast rest) = Inr (asf_records env text)"
    "asf_paths env None (groupby path_num (asf_records env text)) = Inr (coords, es)"
    "es \<noteq> []" "lg_edges r = Some (map (\<lambda>(a, b). [a, b]) es)"
    "length (lg_points r) = length coords"
  using assms
  apply (auto simp: asf_body_def asf_records_def bind_err_Inr of_opt_Inr np_vstack_def
        split: list.splits if_splits option.splits)
  apply (auto dest!: scale_apply_length)
  done

lemma scenario_lines:
  "content_lines ''2\<newline>0 0 0.1 0.2 0 0 0\<newline>0 0 0.3 0.4 1 1 1\<newline>img.png\<newline>'' =
     [''2'', ''0 0 0.1 0.2 0 0 0'', ''0 0 0.3 0.4 1 1 1'', ''img.png'']"
  by code_simp

lemma scenario_split:
  "asf_split 2 [''0 0 0.1 0.2 0 0 0'', ''0 0 0.3 0.4 1 1 1''] =
     Inr [\<lparr>path_num = ''0'', path_type = ''0'', xpos = ''0.1'', ypos = ''0.2'',
             point_num = ''0'', connects_from = ''0'', connects_to = ''0''\<rparr>,
          \<lparr>path_num = ''0'', path_type = ''0'', xpos = ''0.3'', ypos = ''0.4'',
             point_num = ''1'', connects_from = ''1'', connects_to = ''1''\<rparr>]"
proof -
  have s1: "split_ws ''0 0 0.1 0.2 0 0 0'' = [''0'', ''0'', ''0.1'', ''0.2'', ''0'', ''0'', ''0'']"
    by code_simp
  have s2: "split_ws ''0 0 0.3 0.4 1 1 1'' = [''0'', ''0'', ''0.3'', ''0.4'', ''1'', ''1'', ''1'']"
    by code_simp
  show ?thesis
    by (simp add: numeral_2_eq_2 s1 s2 mk_ASFPath_def bind_err_def)
qed

lemma dec_int_012:
  "py_int dec_env ''2'' = Some 2" "py_int dec_env ''1'' = Some 1" "py_int dec_env ''0'' = Some 0"
  by code_simp+

lemma dec_float_scenario:
  "py_float dec_env ''0.1'' = Some (DFin (1 / 10))"
  "py_float dec_env ''0.2'' = Some (DFin (1 / 5))"
  "py_float dec_env ''0.3'' = Some (DFin (3 / 10))"
  "py_float dec_env ''0.4'' = Some (DFin (2 / 5))"
  by code_simp+

text \<open>
  C1 (as the code has it). The two records of the scenario file form one path whose
  \<^verbatim>\<open>path_type\<close> is \<open>0\<close>; neither record emits an edge of its own, but the path is closed
  by the edge from its last point to its first. In every environment that reads the
  seven literals of the file, parsing yields the points \<open>[[0.2, 0.1], [0.4, 0.3]]\<close>, the
  single edge \<open>(1, 0)\<close> and the label \<open>all\<close> with mask \<open>[True, True]\<close>.
\<close>

theorem asf_scenario_result:
  assumes "py_int env ''2'' = Some 2" "py_int env ''1'' = Some 1" "py_int env ''0'' = Some 0"
    and "py_float env ''0.1'' = Some a" "py_float env ''0.2'' = Some b"
    and "py_float env ''0.3'' = Some c" "py_float env ''0.4'' = Some d"
  shows "ASF_parse_format env
           ''2\<newline>0 0 0.1 0.2 0 0 0\<newline>0 0 0.3 0.4 1 1 1\<newline>img.png\<newline>'' None =
         ([FileOpen, FileClose],
          Inr \<lparr>lg_points = [[b, a], [d, c]], lg_edges = Some [[1, 0]],
               lg_labels = [(''all'', Vec [True, True])]\<rparr>)"
  using assms
  by (simp add: ASF_parse_format_def asf_body_def scenario_lines scenario_split bind_err_def
      of_opt_def asf_closing_def isolated_def np_vstack_def)

theorem asf_scenario_result_witness:
  "py_int dec_env ''2'' = Some 2 \<and> py_int dec_env ''1'' = Some 1 \<and>
   py_int dec_env ''0'' = Some 0 \<and>
   py_float dec_env ''0.1'' = Some (DFin (1 / 10)) \<and>
   py_float dec_env ''0.2'' = Some (DFin (1 / 5)) \<and>
   py_float dec_env ''0.3'' = Some (DFin (3 / 10)) \<and>
   py_float dec_env ''0.4'' = Some (DFin (2 / 5)) \<and>
   ASF_parse_format dec_env
     ''2\<newline>0 0 0.1 0.2 0 0 0\<newline>0 0 0.3 0.4 1 1 1\<newline>img.png\<newline>'' None =
   ([FileOpen, FileClose],
    Inr \<lparr>lg_points = [[DFin (1 / 5), DFin (1 / 10)], [DFin (2 / 5), DFin (3 / 10)]],
         lg_edges = Some [[1, 0]], lg_labels = [(''all'', Vec [True, True])]\<rparr>)"
  using dec_int_012 dec_float_scenario asf_scenario_result [OF dec_int_012 dec_float_scenario]
  by simp

text \<open>
  C1 as stated fails: on the scenario file the result is not the one with an empty edge
  list.
\<close>

theorem asf_scenario_counterexample:
  "snd (ASF_parse_format dec_env
     ''2\<newline>0 0 0.1 0.2 0 0 0\<newline>0 0 0.3 0.4 1 1 1\<newline>img.png\<newline>'' None) \<noteq>
   Inr \<lparr>lg_points = [[DFin (1 / 5), DFin (1 / 10)], [DFin (2 / 5), DFin (3 / 10)]],
        lg_edges = Some [], lg_labels = [(''all'', Vec [True, True])]\<rparr>"
  by code_simp

text \<open>
  C5. Whenever an ASF text parses, the result has exactly as many points as the count
  declared on its first content line; and if the \<^verbatim>\<open>point_num\<close> and \<^verbatim>\<open>connects_to\<close> fields of
  the records (the text being a valid ASF file) denote integers below that count, so
  does every index of every emitted edge.
\<close>

theorem asf_count_and_edge_bound:
  assumes ok: "asf_body env text asset = Inr r"
    and valid: "\<forall>v \<in> set (asf_records env text). \<forall>i.
        py_int env (point_num v) = Some i \<or> py_int env (connects_to v) = Some i \<longrightarrow> i < count"
    and cnt: "asf_count env text = Some count"
  shows "int (length (lg_points r)) = count \<and>
         (\<exists>rows. lg_edges r = Some rows \<and> (\<forall>row \<in> set rows. \<forall>i \<in> set row. i < count))"
proof -
  from ok obtain l0 rest count' coords es where
    cl: "content_lines text = l0 # rest" and c: "py_int env l0 = Some count'" and
    nn: "0 \<le> count'" and
    sp: "asf_split (nat count') (butlast rest) = Inr (asf_records env text)" and
    pa: "asf_paths env None (groupby path_num (asf_records env text)) = Inr (coords, es)" and
    ed: "lg_edges r = Some (map (\<lambda>(a, b). [a, b]) es)" and
    len: "length (lg_points r) = length coords"
    by (rule asf_body_Inr)
  from cnt cl c have cc: "count' = count" by (simp add: asf_count_def)
  from asf_paths_props[OF pa]
  have l2: "length coords = length (asf_records env text)"
    and fi: "\<forall>(a, b) \<in> set es. a \<in> field_ints env (asf_records env text) \<and>
                 b \<in> field_ints env (asf_records env text)"
    by (simp_all add: concat_groupby)
  from asf_split_length[OF sp] l2 len nn cc have "int (length (lg_points r)) = count" by simp
  moreover have "\<forall>row \<in> set (map (\<lambda>(a, b). [a, b]) es). \<forall>i \<in> set row. i < count"
    using fi valid by (fastforce simp: field_ints_def)
  ultimately show ?thesis using ed by simp
qed

text \<open>
  C9. If every record that the parser reads is an isolated point and no path starts
  with \<^verbatim>\<open>path_type\<close> \<open>0\<close>, no edge is appended and \<^verbatim>\<open>np.vstack\<close> of the empty accumulator
  raises: the parse ends in an error, with or without an asset.
\<close>

theorem asf_no_edge_raises:
  assumes iso: "\<forall>v \<in> set (asf_records env text). isolated v"
    and nz: "\<forall>p \<in> set (groupby path_num (asf_records env text)). path_type (hd p) \<noteq> ''0''"
  shows "\<exists>e. snd (ASF_parse_format env text asset) = Inl e"
proof (cases "asf_body env text asset")
  case (Inl e)
  then show ?thesis by (simp add: ASF_parse_format_def)
next
  case (Inr r)
  then obtain coords es where
    pa: "asf_paths env None (groupby path_num (asf_records env text)) = Inr (coords, es)" and
    ne: "es \<noteq> []"
    by (rule asf_body_Inr)
  have "es = []"
    using asf_paths_no_edges[OF pa] iso nz by (auto simp: concat_groupby groupby_nonempty)
  with ne show ?thesis by simp
qed

subsection \<open>ASF: the statements on concrete files\<close>

lemma scenario_records:
  "asf_records dec_env ''2\<newline>0 0 0.1 0.2 0 0 0\<newline>0 0 0.3 0.4 1 1 1\<newline>img.png\<newline>'' =
     [\<lparr>path_num = ''0'', path_type = ''0'', xpos = ''0.1'', ypos = ''0.2'',
        point_num = ''0'', connects_from = ''0'', connects_to = ''0''\<rparr>,
      \<lparr>path_num = ''0'', path_type = ''0'', xpos = ''0.3'', ypos = ''0.4'',
        point_num = ''1'', connects_from = ''1'', connects_to = ''1''\<rparr>]"
  by (simp add: asf_records_def scenario_lines dec_int_012 scenario_split)

lemma scenario_body:
  "asf_body dec_env ''2\<newline>0 0 0.1 0.2 0 0 0\<newline>0 0 0.3 0.4 1 1 1\<newline>img.png\<newline>'' None =
   Inr \<lparr>lg_points = [[DFin (1 / 5), DFin (1 / 10)], [DFin (2 / 5), DFin (3 / 10)]],
        lg_edges = Some [[1, 0]], lg_labels = [(''all'', Vec [True, True])]\<rparr>"
  by code_simp

lemma scenario_count:
  "asf_count dec_env ''2\<newline>0 0 0.1 0.2 0 0 0\<newline>0 0 0.3 0.4 1 1 1\<newline>img.png\<newline>'' = Some 2"
  by (simp add: asf_count_def scenario_lines dec_int_012)

lemma scenario_valid:
  "\<forall>v \<in> set (asf_records dec_env
       ''2\<newline>0 0 0.1 0.2 0 0 0\<newline>0 0 0.3 0.4 1 1 1\<newline>img.png\<newline>'').
     \<forall>i. py_int dec_env (point_num v) = Some i \<or> py_int dec_env (connects_to v) = Some i
        \<longrightarrow> i < 2"
  by (auto simp: scenario_records dec_int_012)

theorem asf_count_and_edge_bound_witness:
  "asf_body dec_env ''2\<newline>0 0 0.1 0.2 0 0 0\<newline>0 0 0.3 0.4 1 1 1\<newline>img.png\<newline>'' None =
     Inr \<lparr>lg_points = [[DFin (1 / 5), DFin (1 / 10)], [DFin (2 / 5), DFin (3 / 10)]],
          lg_edges = Some [[1, 0]], lg_labels = [(''all'', Vec [True, True])]\<rparr> \<and>
   list_all (\<lambda>v. the (py_int dec_env (point_num v)) < 2 \<and> the (py_int dec_env (connects_to v)) < 2)
     (asf_records dec_env
        ''2\<newline>0 0 0.1 0.2 0 0 0\<newline>0 0 0.3 0.4 1 1 1\<newline>img.png\<newline>'') \<and>
   asf_count dec_env ''2\<newline>0 0 0.1 0.2 0 0 0\<newline>0 0 0.3 0.4 1 1 1\<newline>img.png\<newline>'' = Some 2 \<and>
   int (length [[DFin (1 / 5), DFin (1 / 10)], [DFin (2 / 5), DFin (3 / 10)]]) = 2 \<and>
   list_all (list_all (\<lambda>i. i < 2)) [[1, 0 :: int]]"
  using scenario_body scenario_count
    asf_count_and_edge_bound [OF scenario_body scenario_valid scenario_count]
  by (simp add: scenario_records dec_int_012)

lemma open_records:
  "asf_records dec_env ''2\<newline>0 4 0.1 0.2 0 0 0\<newline>0 4 0.3 0.4 1 1 1\<newline>img.png\<newline>'' =
     [\<lparr>path_num = ''0'', path_type = ''4'', xpos = ''0.1'', ypos = ''0.2'',
        point_num = ''0'', connects_from = ''0'', connects_to = ''0''\<rparr>,
      \<lparr>path_num = ''0'', path_type = ''4'', xpos = ''0.3'', ypos = ''0.4'',
        point_num = ''1'', connects_from = ''1'', connects_to = ''1''\<rparr>]"
  by code_simp

lemma open_isolated:
  "\<forall>v \<in> set (asf_records dec_env
      ''2\<newline>0 4 0.1 0.2 0 0 0\<newline>0 4 0.3 0.4 1 1 1\<newline>img.png\<newline>''). isolated v"
  by (simp add: open_records isolated_def)

lemma open_types:
  "\<forall>p \<in> set (groupby path_num (asf_records dec_env
      ''2\<newline>0 4 0.1 0.2 0 0 0\<newline>0 4 0.3 0.4 1 1 1\<newline>img.png\<newline>'')).
     path_type (hd p) \<noteq> ''0''"
  by (simp add: open_records)

theorem asf_no_edge_raises_witness:
  "list_all isolated (asf_records dec_env
      ''2\<newline>0 4 0.1 0.2 0 0 0\<newline>0 4 0.3 0.4 1 1 1\<newline>img.png\<newline>'') \<and>
   list_all (\<lambda>p. path_type (hd p) \<noteq> ''0'') (groupby path_num (asf_records dec_env
      ''2\<newline>0 4 0.1 0.2 0 0 0\<newline>0 4 0.3 0.4 1 1 1\<newline>img.png\<newline>'')) \<and>
   (\<exists>e. snd (ASF_parse_format dec_env
      ''2\<newline>0 4 0.1 0.2 0 0 0\<newline>0 4 0.3 0.4 1 1 1\<newline>img.png\<newline>'' None) = Inl e)"
  using open_isolated open_types asf_no_edge_raises [OF open_isolated open_types, of None]
  by (simp add: list_all_iff)

subsection \<open>PTS: every line after the opening brace\<close>

lemma pts_body_finish:
  "pts_body env policy text = bind_err (pts_seek (file_lines text)) (pts_finish env policy)"
  by (cases "pts_seek (file_lines text)") (simp_all add: pts_body_def pts_finish_def bind_err_def)

lemma build_points_Cons:
  "build_points policy (f_sub_int env a 1 # xs) (f_sub_int env b 1 # ys) =
     pts_row env policy a b # build_points policy xs ys"
  by (simp add: build_points_def pts_row_def split: axis_policy.splits)

lemma build_points_Nil: "build_points policy [] [] = []"
  by (simp add: build_points_def split: axis_policy.splits)

lemma np_array_str_Cons:
  "np_array_str env (s # ss) = Inr vs \<longleftrightarrow>
     (\<exists>a as. np_float_of_str env s = Some a \<and> np_array_str env ss = Inr as \<and> vs = a # as)"
  by (auto simp: np_array_str_def bind_err_Inr of_opt_Inr)

lemma np_array_str_Nil: "np_array_str env [] = Inr []"
  by (simp add: np_array_str_def)

lemma pts_finish_Nil: "pts_finish env policy [] = Inr []"
  by (simp add: pts_finish_def bind_err_def np_array_str_Nil build_points_Nil)

lemma pts_finish_blank:
  "split_ws l = [] \<Longrightarrow> pts_finish env policy (l # ls) = Inl IndexError"
  by (simp add: pts_finish_def bind_err_def)

lemma pts_finish_closing:
  "closing l \<Longrightarrow> pts_finish env policy (l # ls) = pts_finish env policy ls"
  by (auto simp: pts_finish_def closing_def split: list.splits)

lemma pts_finish_single:
  "split_ws l = [t] \<Longrightarrow> t \<noteq> ''}'' \<Longrightarrow> pts_finish env policy (l # ls) = Inl LibValueError"
  by (simp add: pts_finish_def bind_err_def)

lemma pts_finish_coord:
  assumes "split_ws l = t # u # us" "t \<noteq> ''}''"
  shows "pts_finish env policy (l # ls) = Inr pts \<longleftrightarrow>
     (\<exists>a b ps. np_float_of_str env t = Some a \<and> np_float_of_str env u = Some b \<and>
        pts_finish env policy ls = Inr ps \<and> pts = pts_row env policy a b # ps)"
  using assms
  by (auto simp: pts_finish_def bind_err_Inr np_array_str_Cons build_points_Cons)

lemma pts_finish_Inr:
  "pts_finish env policy ls = Inr pts \<longleftrightarrow>
     (\<forall>l \<in> set ls. split_ws l \<noteq> []) \<and>
     map (pts_point env policy) (filter (Not \<circ> closing) ls) = map Some pts"
proof (induction ls arbitrary: pts)
  case Nil
  then show ?case by (auto simp: pts_finish_Nil)
next
  case (Cons l ls)
  show ?case
  proof (cases "split_ws l")
    case Nil
    then show ?thesis by (simp add: pts_finish_blank)
  next
    case (Cons t ts)
    show ?thesis
    proof (cases "t = ''}''")
      case True
      with Cons have "closing l" by (simp add: closing_def)
      then show ?thesis using Cons Cons.IH by (simp add: pts_finish_closing)
    next
      case False
      with Cons have nc: "\<not> closing l" by (simp add: closing_def)
      show ?thesis
      proof (cases ts)
        case Nil
        with Cons False have "pts_finish env policy (l # ls) = Inl LibValueError"
          by (simp add: pts_finish_single)
        moreover from Nil Cons have "pts_point env policy l = None"
          by (simp add: pts_point_def)
        ultimately show ?thesis using nc by (cases pts) auto
      next
        case (Cons u us)
        with \<open>split_ws l = t # ts\<close> have sp: "split_ws l = t # u # us" by simp
        show ?thesis
          unfolding pts_finish_coord[OF sp False]
          using nc sp Cons.IH
          by (cases pts) (auto simp: pts_point_def split: option.splits)
      qed
    qed
  qed
qed

lemma pts_parse_Inr:
  "snd (PTS_parse_format env policy text) = Inr pts \<longleftrightarrow>
     (\<exists>rest. pts_seek (file_lines text) = Inr rest \<and>
        (\<forall>l \<in> set rest. split_ws l \<noteq> []) \<and>
        map (pts_point env policy) (filter (Not \<circ> closing) rest) = map Some pts)"
  by (simp add: PTS_parse_format_def pts_body_finish bind_err_Inr pts_finish_Inr)

text \<open>
  C10. Let a line whose first token is \<open>}\<close> stand anywhere after the opening line, with
  the lines \<open>block\<close> before it and the lines \<open>trailing\<close> after it up to the end of the
  file. The parser returns points exactly when every line of \<open>block\<close> and of \<open>trailing\<close>
  has a first token and the lines among them that do not start with \<open>}\<close> denote those
  points, in order: the lines after the closing brace are read as coordinate lines like
  the ones before it, and a blank, one-token or non-numeric line among them makes the
  parse fail.
\<close>

theorem pts_lines_after_closing_brace_are_parsed:
  assumes "pts_seek (file_lines text) = Inr (block @ c # trailing)" and "closing c"
  shows "snd (PTS_parse_format env policy text) = Inr pts \<longleftrightarrow>
     (\<forall>l \<in> set (block @ trailing). split_ws l \<noteq> []) \<and>
     map (pts_point env policy) (filter (Not \<circ> closing) (block @ trailing)) = map Some pts"
proof -
  from assms(2) have "split_ws c \<noteq> []" by (auto simp: closing_def)
  with assms show ?thesis by (auto simp: pts_parse_Inr)
qed

lemma pts_point_Some:
  "pts_point env policy l = Some p \<Longrightarrow>
     \<exists>x y. np_float_of_str env (split_ws l ! 0) = Some x \<and>
           np_float_of_str env (split_ws l ! 1) = Some y \<and> p = pts_row env policy x y"
  by (auto simp: pts_point_def split: list.splits option.splits)

lemma filter_takeWhile_all:
  "\<forall>x \<in> set (dropWhile P xs). \<not> P x \<Longrightarrow> filter P xs = takeWhile P xs"
proof (induction xs)
  case Nil
  show ?case by simp
next
  case (Cons a xs)
  show ?case
  proof (cases "P a")
    case True
    with Cons.prems have "\<forall>x \<in> set (dropWhile P xs). \<not> P x" by simp
    then have "filter P xs = takeWhile P xs" by (rule Cons.IH)
    with True show ?thesis by simp
  next
    case False
    with Cons.prems have "\<forall>x \<in> set xs. \<not> P x" by simp
    with False show ?thesis by (simp add: filter_empty_conv)
  qed
qed

text \<open>
  C6 (as the code has it). If only lines starting with \<open>}\<close> follow the braced block and
  the parse succeeds, the result has exactly as many points as the block has lines, and
  the coordinates of point \<open>i\<close> are the first two tokens of line \<open>i\<close> of the block, converted
  to floats, minus 1, in the order of the axis policy.
\<close>

theorem pts_block_points:
  assumes ok: "snd (PTS_parse_format env policy text) = Inr pts"
    and tail: "\<forall>l \<in> set (dropWhile (Not \<circ> closing) (pts_rest text)). closing l"
  shows "length pts = length (pts_block text) \<and>
     (\<forall>i < length pts. \<exists>x y.
        np_float_of_str env (split_ws (pts_block text ! i) ! 0) = Some x \<and>
        np_float_of_str env (split_ws (pts_block text ! i) ! 1) = Some y \<and>
        pts ! i = (case policy of
                     ImageAxes \<Rightarrow> [f_sub_int env y 1, f_sub_int env x 1]
                   | MeshAxes \<Rightarrow> [f_sub_int env x 1, f_sub_int env y 1]))"
proof -
  from ok obtain rest where
    sk: "pts_seek (file_lines text) = Inr rest" and
    mp: "map (pts_point env policy) (filter (Not \<circ> closing) rest) = map Some pts"
    by (auto simp: pts_parse_Inr)
  from sk have r: "pts_rest text = rest" by (simp add: pts_rest_def)
  from tail r have "filter (Not \<circ> closing) rest = pts_block text"
    by (simp add: pts_block_def filter_takeWhile_all)
  with mp have m: "map (pts_point env policy) (pts_block text) = map Some pts" by simp
  then have len: "length pts = length (pts_block text)"
    by (metis length_map)
  have "\<exists>x y. np_float_of_str env (split_ws (pts_block text ! i) ! 0) = Some x \<and>
        np_float_of_str env (split_ws (pts_block text ! i) ! 1) = Some y \<and>
        pts ! i = pts_row env policy x y" if "i < length pts" for i
  proof -
    from m that len have "pts_point env policy (pts_block text ! i) = Some (pts ! i)"
      by (metis nth_map)
    then show ?thesis by (rule pts_point_Some)
  qed
  with len show ?thesis by (simp add: pts_row_def)
qed

subsection \<open>PTS: the statements on concrete files\<close>

lemma trailing_lines: "file_lines ''{\<newline>1 2\<newline>}\<newline>3 4\<newline>'' = [''{\<newline>'', ''1 2\<newline>'', ''}\<newline>'', ''3 4\<newline>'']"
  by code_simp

lemma trailing_seek:
  "pts_seek (file_lines ''{\<newline>1 2\<newline>}\<newline>3 4\<newline>'') = Inr ([''1 2\<newline>''] @ ''}\<newline>'' # [''3 4\<newline>''])"
  by code_simp

lemma closing_brace_line: "closing ''}\<newline>''"
  by code_simp

lemma trailing_tokens:
  "split_ws ''1 2\<newline>'' = [''1'', ''2'']" "split_ws ''3 4\<newline>'' = [''3'', ''4'']"
  by code_simp+

lemma dec_np_float_1234:
  "np_float_of_str dec_env ''1'' = Some (DFin 1)" "np_float_of_str dec_env ''2'' = Some (DFin 2)"
  "np_float_of_str dec_env ''3'' = Some (DFin 3)" "np_float_of_str dec_env ''4'' = Some (DFin 4)"
  by code_simp+

lemma dec_sub1: "f_sub_int dec_env (DFin r) 1 = DFin (r - 1)"
  by (simp add: dec_env_def dfloat_map_def)

lemma trailing_points:
  "map (pts_point dec_env MeshAxes) (filter (Not \<circ> closing) ([''1 2\<newline>''] @ [''3 4\<newline>''])) =
     map Some [[DFin 0, DFin 1], [DFin 2, DFin 3]]"
  by (simp add: closing_def trailing_tokens pts_point_def dec_np_float_1234 pts_row_def dec_sub1)

theorem pts_lines_after_closing_brace_are_parsed_witness:
  "pts_seek (file_lines ''{\<newline>1 2\<newline>}\<newline>3 4\<newline>'') =
     Inr ([''1 2\<newline>''] @ ''}\<newline>'' # [''3 4\<newline>'']) \<and>
   closing ''}\<newline>'' \<and>
   snd (PTS_parse_format dec_env MeshAxes ''{\<newline>1 2\<newline>}\<newline>3 4\<newline>'') =
     Inr [[DFin 0, DFin 1], [DFin 2, DFin 3]]"
  using trailing_seek closing_brace_line trailing_points
    pts_lines_after_closing_brace_are_parsed [OF trailing_seek closing_brace_line,
      of dec_env MeshAxes "[[DFin 0, DFin 1], [DFin 2, DFin 3]]"]
  by (simp add: trailing_tokens)

text \<open>
  C6 as stated fails: the braced block of this file has one coordinate line, and the
  result has two points, the second from the line after the closing brace.
\<close>

theorem pts_block_count_counterexample:
  "length (pts_block ''{\<newline>1 2\<newline>}\<newline>3 4\<newline>'') = 1 \<and>
   snd (PTS_parse_format dec_env MeshAxes ''{\<newline>1 2\<newline>}\<newline>3 4\<newline>'') =
     Inr [[DFin 0, DFin 1], [DFin 2, DFin 3]]"
  by code_simp

lemma plain_rest: "pts_rest ''{\<newline>1 2\<newline>3.5 4\<newline>}\<newline>'' = [''1 2\<newline>'', ''3.5 4\<newline>'', ''}\<newline>'']"
  by code_simp

lemma plain_parse:
  "snd (PTS_parse_format dec_env ImageAxes ''{\<newline>1 2\<newline>3.5 4\<newline>}\<newline>'') =
     Inr [[DFin 1, DFin 0], [DFin 3, DFin (5 / 2)]]"
  by code_simp

lemma plain_tail:
  "\<forall>l \<in> set (dropWhile (Not \<circ> closing) (pts_rest ''{\<newline>1 2\<newline>3.5 4\<newline>}\<newline>'')). closing l"
  by (simp add: plain_rest) code_simp

theorem pts_block_points_witness:
  "snd (PTS_parse_format dec_env ImageAxes ''{\<newline>1 2\<newline>3.5 4\<newline>}\<newline>'') =
     Inr [[DFin 1, DFin 0], [DFin 3, DFin (5 / 2)]] \<and>
   list_all closing (dropWhile (Not \<circ> closing) (pts_rest ''{\<newline>1 2\<newline>3.5 4\<newline>}\<newline>'')) \<and>
   length [[DFin 1, DFin 0], [DFin 3, DFin (5 / 2)]] =
     length (pts_block ''{\<newline>1 2\<newline>3.5 4\<newline>}\<newline>'')"
  using plain_parse plain_tail pts_block_points [OF plain_parse plain_tail]
  by (simp add: list_all_iff)

text \<open>
  C8. The parsers that read inside a \<^verbatim>\<open>with\<close> block (ASF, LM2, LJSON) close the file
  before anything can fail; the PTS parser never closes its handle, neither on a file
  that parses nor on one whose blank line makes the parse raise.
\<close>

theorem pts_file_left_open:
  "PTS_parse_format dec_env ImageAxes ''{\<newline>1 2\<newline>}\<newline>'' = ([FileOpen], Inr [[DFin 1, DFin 0]]) \<and>
   FileClose \<notin> set (fst (PTS_parse_format dec_env ImageAxes ''{\<newline>1 2\<newline>}\<newline>'')) \<and>
   PTS_parse_format dec_env ImageAxes ''{\<newline>1 2\<newline>\<newline>}\<newline>'' = ([FileOpen], Inl IndexError)"
  by code_simp

lemma with_block_closes:
  "fst (ASF_parse_format env text asset) = [FileOpen, FileClose]"
  "fst (LM2_parse_format env text) = [FileOpen, FileClose]"
  "take 2 (fst (LJSON_parse_format env filepath lms_dict)) = [FileOpen, FileClose]"
  by (auto simp: ASF_parse_format_def LM2_parse_format_def LJSON_parse_format_def
      split: jversion.splits sum.splits option.splits ljson_parser.splits)

lemma pts_never_closes: "fst (PTS_parse_format env policy text) = [FileOpen]"
  by (simp add: PTS_parse_format_def)

subsection \<open>LM2: one label per point\<close>

lemma od_set_fresh: "k \<notin> fst ` set d \<Longrightarrow> od_set d k v = d @ [(k, v)]"
  by (induction d) auto

lemma foldl_od_set_distinct:
  "distinct (map fst (acc @ ps)) \<Longrightarrow> foldl (\<lambda>d (k, v). od_set d k v) acc ps = acc @ ps"
proof (induction ps arbitrary: acc)
  case Nil
  show ?case by simp
next
  case (Cons p ps)
  obtain k v where p: "p = (k, v)" by (cases p)
  from Cons.prems p have fresh: "k \<notin> fst ` set acc" by auto
  from Cons.prems p have "distinct (map fst ((acc @ [(k, v)]) @ ps))" by simp
  then have "foldl (\<lambda>d (k, v). od_set d k v) (acc @ [(k, v)]) ps = (acc @ [(k, v)]) @ ps"
    by (rule Cons.IH)
  with fresh p show ?case by (simp add: od_set_fresh)
qed

lemma ordered_dict_distinct: "distinct (map fst ps) \<Longrightarrow> ordered_dict ps = ps"
  using foldl_od_set_distinct[of "[]" ps] by (simp add: ordered_dict_def)

lemma pop_labels_Inr:
  "pop_labels n ls = Inr (labs, rest) \<Longrightarrow>
     labs = map lm2_label (take n ls) \<and> rest = drop n ls \<and> n \<le> length ls"
  by (induction n ls arbitrary: labs rest rule: pop_labels.induct)
     (auto simp: bind_err_Inr)

lemma mask_entries_squeeze: "mask_entries (np_squeeze row) = row"
  by (auto simp: np_squeeze_def split: list.splits)

lemma np_eye_length: "length (np_eye n) = n"
  by (simp add: np_eye_def)

lemma np_eye_nth: "i < n \<Longrightarrow> np_eye n ! i = map (\<lambda>j. j = i) [0..<n]"
  by (simp add: np_eye_def)

lemma count_one_hot: "count_list (map (\<lambda>j. j = i) [0..<n]) True = (if i < n then 1 else 0)"
  by (induction n) auto

lemma lm2_body_Inr:
  assumes ok: "lm2_body env text = Inr r"
  obtains n where "lm2_count env text = Some n" "0 < n"
    "length (lm2_labels env text) = nat n"
    "lg_labels r = ordered_dict (zip (lm2_labels env text) (map np_squeeze (np_eye (nat n))))"
proof -
  note d = lm2_body_def bind_err_def of_opt_def
  from ok obtain l0 t1 where cl: "content_lines text = l0 # t1"
    by (cases "content_lines text") (simp_all add: d)
  from ok cl obtain tok toks where sw: "split_ws l0 = tok # toks"
    by (cases "split_ws l0") (simp_all add: d)
  from ok cl sw obtain n where pi: "py_int env tok = Some n"
    by (cases "py_int env tok") (simp_all add: d)
  from ok cl sw pi obtain labels_str t2 where t1: "t1 = labels_str # t2"
    by (cases t1) (simp_all add: d)
  from ok cl sw pi t1 have ls: "labels_str = ''Labels:''"
    by (cases "labels_str = ''Labels:''") (simp_all add: d)
  from ok cl sw pi t1 ls obtain labs t3 where pl: "pop_labels (nat n) t2 = Inr (labs, t3)"
    by (cases "pop_labels (nat n) t2") (auto simp: d)
  from ok cl sw pi t1 ls pl obtain coords_str t4 where t3: "t3 = coords_str # t4"
    by (cases t3) (simp_all add: d)
  from ok cl sw pi t1 ls pl t3 have cs: "coords_str = ''2D Image coordinates:''"
    by (cases "coords_str = ''2D Image coordinates:''") (simp_all add: d)
  from ok cl sw pi t1 ls pl t3 cs obtain coords where
    pc: "pop_coords env (nat n) t4 = Inr coords"
    by (cases "pop_coords env (nat n) t4") (simp_all add: d)
  from ok cl sw pi t1 ls pl t3 cs pc have pos: "0 < n"
    by (cases "n < 0"; cases "n = 0") (simp_all add: d)
  from ok cl sw pi t1 ls pl t3 cs pc pos have
    lab: "lg_labels r = ordered_dict (zip labs (map np_squeeze (np_eye (nat n))))"
    by (auto simp: d)
  from pop_labels_Inr[OF pl] have
    labs: "labs = map lm2_label (take (nat n) t2)" and len: "nat n \<le> length t2"
    by simp_all
  have cnt: "lm2_count env text = Some n"
    by (simp add: lm2_count_def cl sw pi)
  have ll: "lm2_labels env text = labs"
    by (simp add: lm2_labels_def cnt cl t1 labs)
  show thesis
  proof (rule that[OF cnt pos])
    show "length (lm2_labels env text) = nat n" using len by (simp add: ll labs)
    show "lg_labels r = ordered_dict (zip (lm2_labels env text) (map np_squeeze (np_eye (nat n))))"
      by (simp add: ll lab)
  qed
qed

text \<open>
  C3 (as the code has it). If an LM2 text declaring \<open>n\<close> points parses and its \<open>n\<close>
  normalised labels are pairwise distinct, the result has exactly \<open>n\<close> labels, the given
  ones in order; mask \<open>i\<close> has \<open>n\<close> entries of which exactly one is true, the one at position
  \<open>i\<close>; hence two different masks share no point and every point lies in a mask.
\<close>

theorem lm2_one_hot_partition:
  assumes ok: "snd (LM2_parse_format env text) = Inr r"
    and cnt: "lm2_count env text = Some n"
    and dist: "distinct (lm2_labels env text)"
  shows "length (lg_labels r) = nat n \<and> map fst (lg_labels r) = lm2_labels env text \<and>
     (\<forall>i < nat n.
        length (mask_entries (snd (lg_labels r ! i))) = nat n \<and>
        count_list (mask_entries (snd (lg_labels r ! i))) True = 1 \<and>
        (\<forall>j < nat n. mask_entries (snd (lg_labels r ! i)) ! j \<longleftrightarrow> j = i)) \<and>
     (\<forall>i < nat n. \<forall>k < nat n. \<forall>j < nat n.
        mask_entries (snd (lg_labels r ! i)) ! j \<and> mask_entries (snd (lg_labels r ! k)) ! j
          \<longrightarrow> i = k) \<and>
     (\<forall>j < nat n. \<exists>i < nat n. mask_entries (snd (lg_labels r ! i)) ! j)"
proof -
  from ok have "lm2_body env text = Inr r" by (simp add: LM2_parse_format_def)
  then obtain n' where c': "lm2_count env text = Some n'" and
    len: "length (lm2_labels env text) = nat n'" and
    lab: "lg_labels r =
      ordered_dict (zip (lm2_labels env text) (map np_squeeze (np_eye (nat n'))))"
    by (rule lm2_body_Inr)
  from cnt c' have nn: "n' = n" by simp
  let ?N = "nat n"
  let ?ps = "zip (lm2_labels env text) (map np_squeeze (np_eye ?N))"
  have fst_ps: "map fst ?ps = lm2_labels env text"
    using len nn by (simp add: np_eye_length)
  with dist have "ordered_dict ?ps = ?ps" by (simp add: ordered_dict_distinct)
  with lab nn have eq: "lg_labels r = ?ps" by simp
  have l: "length (lg_labels r) = ?N" using eq len nn by (simp add: np_eye_length)
  have m: "mask_entries (snd (lg_labels r ! i)) = map (\<lambda>j. j = i) [0..<?N]" if "i < ?N" for i
    using that eq len nn by (simp add: np_eye_length mask_entries_squeeze np_eye_nth)
  have one: "\<forall>i < ?N.
        length (mask_entries (snd (lg_labels r ! i))) = ?N \<and>
        count_list (mask_entries (snd (lg_labels r ! i))) True = 1 \<and>
        (\<forall>j < ?N. mask_entries (snd (lg_labels r ! i)) ! j \<longleftrightarrow> j = i)"
    by (simp add: m count_one_hot)
  have disj: "\<forall>i < ?N. \<forall>k < ?N. \<forall>j < ?N.
        mask_entries (snd (lg_labels r ! i)) ! j \<and> mask_entries (snd (lg_labels r ! k)) ! j
          \<longrightarrow> i = k"
    by (simp add: m)
  have cover: "\<forall>j < ?N. \<exists>i < ?N. mask_entries (snd (lg_labels r ! i)) ! j"
    by (auto simp: m)
  from l eq fst_ps one disj cover show ?thesis by simp
qed

subsection \<open>LM2: the statements on concrete files\<close>

text \<open>
  C3 as stated fails: this text declares two points with two label lines that
  normalise to the same key; the result has one label, and no mask holds point 0.
\<close>

theorem lm2_duplicate_labels_counterexample:
  "lm2_count dec_env
     ''2 Landmarks\<newline>Labels:\<newline>a\<newline>A\<newline>2D Image coordinates:\<newline>1 2\<newline>3 4\<newline>'' = Some 2 \<and>
   snd (LM2_parse_format dec_env
     ''2 Landmarks\<newline>Labels:\<newline>a\<newline>A\<newline>2D Image coordinates:\<newline>1 2\<newline>3 4\<newline>'') =
   Inr \<lparr>lg_points = [[DFin 2, DFin 1], [DFin 4, DFin 3]], lg_edges = Some [],
        lg_labels = [(''a'', Vec [False, True])]\<rparr>"
  by code_simp

lemma lm2_example_parse:
  "snd (LM2_parse_format dec_env
     ''2 Landmarks\<newline>Labels:\<newline>Nose  Tip\<newline>Chin\<newline>2D Image coordinates:\<newline>1 2\<newline>3 4\<newline>'') =
   Inr \<lparr>lg_points = [[DFin 2, DFin 1], [DFin 4, DFin 3]], lg_edges = Some [],
        lg_labels = [(''nose_tip'', Vec [True, False]), (''chin'', Vec [False, True])]\<rparr>"
  by code_simp

lemma lm2_example_count:
  "lm2_count dec_env
     ''2 Landmarks\<newline>Labels:\<newline>Nose  Tip\<newline>Chin\<newline>2D Image coordinates:\<newline>1 2\<newline>3 4\<newline>'' = Some 2"
  by code_simp

lemma lm2_example_labels:
  "lm2_labels dec_env
     ''2 Landmarks\<newline>Labels:\<newline>Nose  Tip\<newline>Chin\<newline>2D Image coordinates:\<newline>1 2\<newline>3 4\<newline>'' =
   [''nose_tip'', ''chin'']"
  by code_simp

lemma lm2_example_distinct:
  "distinct (lm2_labels dec_env
     ''2 Landmarks\<newline>Labels:\<newline>Nose  Tip\<newline>Chin\<newline>2D Image coordinates:\<newline>1 2\<newline>3 4\<newline>'')"
  by (simp add: lm2_example_labels)

theorem lm2_one_hot_partition_witness:
  "snd (LM2_parse_format dec_env
     ''2 Landmarks\<newline>Labels:\<newline>Nose  Tip\<newline>Chin\<newline>2D Image coordinates:\<newline>1 2\<newline>3 4\<newline>'') =
   Inr \<lparr>lg_points = [[DFin 2, DFin 1], [DFin 4, DFin 3]], lg_edges = Some [],
        lg_labels = [(''nose_tip'', Vec [True, False]), (''chin'', Vec [False, True])]\<rparr> \<and>
   lm2_count dec_env
     ''2 Landmarks\<newline>Labels:\<newline>Nose  Tip\<newline>Chin\<newline>2D Image coordinates:\<newline>1 2\<newline>3 4\<newline>'' = Some 2 \<and>
   distinct (lm2_labels dec_env
     ''2 Landmarks\<newline>Labels:\<newline>Nose  Tip\<newline>Chin\<newline>2D Image coordinates:\<newline>1 2\<newline>3 4\<newline>'') \<and>
   length [(''nose_tip'', Vec [True, False]), (''chin'', Vec [False, True])] = nat 2 \<and>
   map fst [(''nose_tip'', Vec [True, False]), (''chin'', Vec [False, True])] =
     lm2_labels dec_env
       ''2 Landmarks\<newline>Labels:\<newline>Nose  Tip\<newline>Chin\<newline>2D Image coordinates:\<newline>1 2\<newline>3 4\<newline>''"
  using lm2_example_parse lm2_example_count lm2_example_distinct
    lm2_one_hot_partition [OF lm2_example_parse lm2_example_count lm2_example_distinct]
  by simp

subsection \<open>LJSON: version dispatch and connectivity\<close>

text \<open>
  C7 (as the code has it). If the version of a document is a scalar (or absent) that
  compares equal neither to 1 nor to 2, the importer closes the file and raises the
  \<^verbatim>\<open>ValueError\<close> whose message is the file path, \<open>has unknown version\<close>, the formatted
  version and \<open>must be 1, or 2\<close>; nothing is returned.
\<close>

theorem ljson_unknown_version:
  assumes "d_version lms_dict = Hashable v"
    and "\<not> py_eq_int env v 1" and "\<not> py_eq_int env v 2"
  shows "LJSON_parse_format env filepath lms_dict =
     ([FileOpen, FileClose],
      Inl (ValueError (filepath @ '' has unknown version '' @ py_format env v @
                       '' must be 1, or 2'')))"
  using assms by (simp add: LJSON_parse_format_def ljson_parser_for_version_def)

lemma version3_unequal:
  "\<not> py_eq_int dec_env (SInt 3) 1" "\<not> py_eq_int dec_env (SInt 3) 2"
  by (simp_all add: py_eq_int_def)

lemma version3_field:
  "d_version \<lparr>d_version = Hashable (SInt 3), d_groups = None, d_landmarks = None,
              d_labels = None\<rparr> = (Hashable (SInt 3) :: dfloat jversion)"
  by simp

lemma format3: "py_format dec_env (SInt 3) = ''3''"
  by code_simp

theorem ljson_unknown_version_witness:
  "d_version \<lparr>d_version = Hashable (SInt 3), d_groups = None, d_landmarks = None,
              d_labels = None\<rparr> = (Hashable (SInt 3) :: dfloat jversion) \<and>
   \<not> py_eq_int dec_env (SInt 3) 1 \<and> \<not> py_eq_int dec_env (SInt 3) 2 \<and>
   LJSON_parse_format dec_env ''f.ljson''
     \<lparr>d_version = Hashable (SInt 3), d_groups = None, d_landmarks = None, d_labels = None\<rparr> =
   ([FileOpen, FileClose],
    Inl (ValueError ''f.ljson has unknown version 3 must be 1, or 2''))"
  using version3_unequal
    ljson_unknown_version [OF version3_field version3_unequal, of "''f.ljson''"]
  by (simp add: format3)

text \<open>
  C7 as stated fails: a version that is a JSON list or object is neither 1 nor 2, and
  looking it up in the dictionary of parsers raises \<^verbatim>\<open>TypeError\<close> before any message is
  formatted.
\<close>

theorem ljson_unhashable_version_counterexample:
  "snd (LJSON_parse_format dec_env ''f.ljson''
     \<lparr>d_version = Unhashable, d_groups = None, d_landmarks = None, d_labels = None\<rparr>) =
   Inl TypeError"
  by (simp add: LJSON_parse_format_def)

lemma shift_conn_Inr:
  "shift_conn off conn = Inr c \<Longrightarrow>
     c = map (map (\<lambda>j. sint (word_of_nat off + j)))
           (case conn of None \<Rightarrow> [] | Some rows \<Rightarrow> rows)"
  by (auto simp: shift_conn_def split: option.splits if_splits)

lemma sint_shift: "sint (word_of_nat off + w :: 64 word) = int64 (int off + sint w)"
  by (simp add: int64_def)




lemma group_offset_0: "group_offset gs 0 = 0"
  by (simp add: group_offset_def)

lemma group_offset_Suc:
  "group_offset (g # gs) (Suc i) = length (g_landmarks g) + group_offset gs i"
  by (simp add: group_offset_def)

lemma v1_groups_Inr:
  "v1_groups off gs = Inr (pts, sl, cs) \<Longrightarrow>
     pts = concat (map g_landmarks gs) \<and>
     cs = concat (map (\<lambda>i. map (map (\<lambda>j. int64 (int (off + group_offset gs i) + j)))
                             (conn_rows (gs ! i))) [0..<length gs])"
proof (induction gs arbitrary: off pts sl cs)
  case Nil
  then show ?case by simp
next
  case (Cons g gs)
  from Cons.prems obtain c pts' sl' cs' where
    sh: "shift_conn off (g_connectivity g) = Inr c" and
    rec: "v1_groups (off + length (g_landmarks g)) gs = Inr (pts', sl', cs')" and
    eq: "pts = g_landmarks g @ pts'" "cs = c @ cs'"
    by (auto simp: bind_err_Inr)
  from shift_conn_Inr[OF sh] have c: "c = map (map (\<lambda>j. int64 (int off + j))) (conn_rows g)"
    by (simp add: conn_rows_def sint_shift comp_def split: option.splits)
  from Cons.IH[OF rec] have
    p': "pts' = concat (map g_landmarks gs)" and
    c': "cs' = concat (map (\<lambda>i. map (map (\<lambda>j.
            int64 (int (off + length (g_landmarks g) + group_offset gs i) + j)))
              (conn_rows (gs ! i))) [0..<length gs])"
    by simp_all
  have idx: "[0..<length (g # gs)] = 0 # map Suc [0..<length gs]"
    by (simp add: upt_conv_Cons map_Suc_upt del: upt_Suc)
  show ?case
    unfolding idx
    by (simp add: eq p' c c' group_offset_0 group_offset_Suc comp_def add.assoc)
qed


subsection \<open>LJSON: null coordinates\<close>

lemma chain_None: "None \<in> set pts \<Longrightarrow> chain pts = Inl TypeError"
  by (induction pts rule: chain.induct) (auto simp: bind_err_def)

lemma chain_Some: "\<forall>p \<in> set pts. p \<noteq> None \<Longrightarrow> chain pts = Inr (concat (map the pts))"
  by (induction pts rule: chain.induct) (auto simp: bind_err_def)

lemma map_err_all:
  "\<forall>x \<in> set xs. \<exists>y. g x = Inr y \<Longrightarrow> map_err g xs = Inr (map (\<lambda>x. projr (g x)) xs)"
  by (induction xs) (auto simp: bind_err_def)

lemma chunks_Nil: "chunks d [] = []"
  by (simp add: chunks.simps)

lemma chunks_concat:
  "0 < d \<Longrightarrow> \<forall>r \<in> set rows. length r = d \<Longrightarrow> chunks d (concat rows) = rows"
proof (induction rows)
  case Nil
  show ?case by (simp add: chunks_Nil)
next
  case (Cons r rows)
  from Cons.prems have lr: "length r = d" and ne: "r \<noteq> []" by auto
  have "chunks d (r @ concat rows) = take d (r @ concat rows) # chunks d (drop d (r @ concat rows))"
    using Cons.prems(1) ne by (subst chunks.simps) simp
  also have "\<dots> = r # chunks d (concat rows)" using lr by simp
  also have "chunks d (concat rows) = rows" using Cons by simp
  finally show ?case by simp
qed

lemma null_values_None:
  "None \<in> set points_list \<Longrightarrow> ljson_parse_null_values env points_list = Inl TypeError"
  by (simp add: ljson_parse_null_values_def chain_None bind_err_def)

lemma null_values_rect:
  assumes rect: "\<forall>p \<in> set pts. \<exists>cs. p = Some cs \<and> length cs = d"
    and d: "0 < d" and ne: "pts \<noteq> []"
    and conv: "\<forall>p \<in> set pts. \<forall>c \<in> set (the p). \<exists>v. np_float env c = Inr v"
  shows "ljson_parse_null_values env pts =
           Inr (map (\<lambda>p. map (\<lambda>c. projr (np_float env c)) (the p)) pts)"
proof -
  define rows where "rows = map (\<lambda>p. map (\<lambda>c. projr (np_float env c)) (the p)) pts"
  define flat where "flat = concat (map the pts)"
  from rect have "\<forall>p \<in> set pts. p \<noteq> None" by auto
  then have ch: "chain pts = Inr flat" unfolding flat_def by (rule chain_Some)
  from conv have "\<forall>c \<in> set flat. \<exists>v. np_float env c = Inr v" by (auto simp: flat_def)
  then have "map_err (np_float env) flat = Inr (map (\<lambda>c. projr (np_float env c)) flat)"
    by (rule map_err_all)
  also have "map (\<lambda>c. projr (np_float env c)) flat = concat rows"
    by (simp add: map_concat comp_def flat_def rows_def)
  finally have me: "map_err (np_float env) flat = Inr (concat rows)" .
  from rect have rl: "\<forall>r \<in> set rows. length r = d" by (auto simp: rows_def)
  have "length (concat rows) = length rows * d"
    using rl by (induction rows) auto
  then have len: "length (concat rows) mod d = 0" by simp
  from ne obtain p0 ps where p: "pts = p0 # ps" by (cases pts) auto
  with rect obtain cs0 where p0: "p0 = Some cs0" "length cs0 = d" by auto
  from chunks_concat[OF d rl] have ck: "chunks d (concat rows) = rows" .
  have "ljson_parse_null_values env pts =
      (case pts of
         [] \<Rightarrow> Inl IndexError
       | p0 # ps \<Rightarrow>
           (let d' = (case p0 of None \<Rightarrow> 0 | Some cs \<Rightarrow> length cs)
            in if d' = 0 \<or> length (concat rows) mod d' \<noteq> 0 then Inl LibValueError
               else Inr (chunks d' (concat rows))))"
    by (simp add: ljson_parse_null_values_def ch me bind_err_def)
  also have "\<dots> = Inr rows"
    using d len ck by (simp add: p p0)
  finally have "ljson_parse_null_values env pts = Inr rows" .
  then show ?thesis by (simp add: rows_def)
qed

lemma np_float_None: "np_float env None = Inr (f_nan env)"
  by (simp add: np_float_def)

text \<open>
  C2 (as the code has it). Let every entry of a points list be a list of \<open>d > 0\<close>
  coordinates, the entry at position \<open>k\<close> consisting of \<open>d\<close> nulls, and let every
  coordinate of every other entry be a number that numpy converts. Then
  \<^verbatim>\<open>_ljson_parse_null_values\<close> succeeds with one row per entry, in order; row \<open>k\<close> is
  not-a-number at every coordinate and every other row holds the converted numbers of
  its entry; and this array is the point array of every version 2 and every version 1
  parse that succeeds on a document with these points.
\<close>

theorem ljson_null_coordinates:
  assumes rect: "\<forall>p \<in> set pts. \<exists>cs. p = Some cs \<and> length cs = d"
    and d: "0 < d" and k: "k < length pts"
    and nul: "pts ! k = Some (replicate d None)"
    and num: "\<forall>i < length pts. i \<noteq> k \<longrightarrow>
                (\<forall>c \<in> set (the (pts ! i)). c \<noteq> None \<and> (\<exists>v. np_float env c = Inr v))"
  shows "\<exists>rows. ljson_parse_null_values env pts = Inr rows \<and> length rows = length pts \<and>
     rows ! k = replicate d (f_nan env) \<and>
     (\<forall>i < length pts. i \<noteq> k \<longrightarrow>
        list_all2 (\<lambda>c v. c \<noteq> None \<and> np_float env c = Inr v) (the (pts ! i)) (rows ! i)) \<and>
     (\<forall>lms_dict lm r. d_landmarks lms_dict = Some lm \<and> lm_points lm = pts \<and>
        parse_ljson_v2 env lms_dict = Inr r \<longrightarrow> lg_points r = rows) \<and>
     (\<forall>lms_dict gs r. d_groups lms_dict = Some gs \<and> concat (map g_landmarks gs) = pts \<and>
        parse_ljson_v1 env lms_dict = Inr r \<longrightarrow> lg_points r = rows)"
proof -
  define rows where "rows = map (\<lambda>p. map (\<lambda>c. projr (np_float env c)) (the p)) pts"
  have conv: "\<forall>p \<in> set pts. \<forall>c \<in> set (the p). \<exists>v. np_float env c = Inr v"
  proof (intro ballI)
    fix p c assume "p \<in> set pts" and c: "c \<in> set (the p)"
    then obtain i where i: "i < length pts" "p = pts ! i" by (auto simp: in_set_conv_nth)
    show "\<exists>v. np_float env c = Inr v"
    proof (cases "i = k")
      case True
      with i nul c have "c = None" by simp
      then show ?thesis by (simp add: np_float_None)
    next
      case False
      with num i c show ?thesis by blast
    qed
  qed
  from k have ne: "pts \<noteq> []" by auto
  have res: "ljson_parse_null_values env pts = Inr rows"
    unfolding rows_def by (rule null_values_rect[OF rect d ne conv])
  have len: "length rows = length pts" by (simp add: rows_def)
  have rk: "rows ! k = replicate d (f_nan env)"
    using k nul by (simp add: rows_def np_float_None)
  have others: "list_all2 (\<lambda>c v. c \<noteq> None \<and> np_float env c = Inr v) (the (pts ! i)) (rows ! i)"
    if "i < length pts" "i \<noteq> k" for i
  proof -
    from num that have "\<forall>c \<in> set (the (pts ! i)). c \<noteq> None \<and> (\<exists>v. np_float env c = Inr v)"
      by blast
    then have "\<forall>c \<in> set (the (pts ! i)). c \<noteq> None \<and> np_float env c = Inr (projr (np_float env c))"
      by auto
    then show ?thesis
      using that by (simp add: rows_def list_all2_map2 list_all2_same)
  qed
  have v2: "lg_points r = rows"
    if "d_landmarks lms_dict = Some lm" "lm_points lm = pts" "parse_ljson_v2 env lms_dict = Inr r"
    for lms_dict :: "'a ljson" and lm r
    using that res by (auto simp: parse_ljson_v2_def bind_err_Inr split: option.splits)
  have v1: "lg_points r = rows"
    if g: "d_groups lms_dict = Some gs" and c: "concat (map g_landmarks gs) = pts"
      and p: "parse_ljson_v1 env lms_dict = Inr r"
    for lms_dict :: "'a ljson" and gs r
  proof -
    from p g obtain ps sl cs points where
      v: "v1_groups 0 gs = Inr (ps, sl, cs)" and
      n: "ljson_parse_null_values env ps = Inr points" and
      r: "lg_points r = points"
      by (auto simp: parse_ljson_v1_def bind_err_Inr)
    from v1_groups_Inr[OF v] c have "ps = pts" by simp
    with n res r show ?thesis by simp
  qed
  from res len rk others v2 v1 show ?thesis by blast
qed

subsection \<open>LJSON: the statements on concrete documents\<close>

lemma v2_example_parse:
  "parse_ljson_v2 dec_env v2_example =
   Inr \<lparr>lg_points = [[DFin 0, DFin 0], [DFin 1, DFin 1], [DNaN, DNaN]],
        lg_edges = Some [[0, 1]],
        lg_labels = [(''a'', Vec [True, True, False]), (''b'', Vec [False, False, True])]\<rparr>"
  by code_simp




lemma v1_example_exact:
  "concat (map (\<lambda>i. map (map (\<lambda>j. int (group_offset (the (d_groups v1_example)) i) + j))
                       (conn_rows (the (d_groups v1_example) ! i)))
               [0..<length (the (d_groups v1_example))]) = [[0, 1], [2, 3], [3, 2]]"
  by code_simp



text \<open>
  C2 as stated fails: with the entry at position 2 being the JSON null value itself, as
  in the third scenario of the specification, the parse raises \<^verbatim>\<open>TypeError\<close>.
\<close>

theorem ljson_null_point_counterexample:
  "snd (LJSON_parse_format dec_env ''f.ljson'' scenario3) = Inl TypeError"
  by code_simp

lemma v2_example_rect:
  "\<forall>p \<in> set (lm_points (the (d_landmarks v2_example))). \<exists>cs. p = Some cs \<and> length cs = 2"
  by (simp add: v2_example_def)

lemma v2_example_null:
  "lm_points (the (d_landmarks v2_example)) ! 2 = Some (replicate 2 None)"
  by (simp add: v2_example_def numeral_2_eq_2)

lemma v2_example_numbers:
  "\<forall>i < length (lm_points (the (d_landmarks v2_example))). i \<noteq> 2 \<longrightarrow>
     (\<forall>c \<in> set (the (lm_points (the (d_landmarks v2_example)) ! i)).
        c \<noteq> None \<and> (\<exists>v. np_float dec_env c = Inr v))"
proof (intro allI impI)
  fix i assume "i < length (lm_points (the (d_landmarks v2_example)))" "i \<noteq> 2"
  then have "i = 0 \<or> i = 1" by (auto simp: v2_example_def)
  then show "\<forall>c \<in> set (the (lm_points (the (d_landmarks v2_example)) ! i)).
        c \<noteq> None \<and> (\<exists>v. np_float dec_env c = Inr v)"
    by (auto simp: v2_example_def np_float_def of_opt_def dec_env_def)
qed

theorem ljson_null_coordinates_witness:
  "\<exists>rows. ljson_parse_null_values dec_env (lm_points (the (d_landmarks v2_example))) = Inr rows \<and>
     length rows = 3 \<and> rows ! 2 = [DNaN, DNaN] \<and>
     lg_points \<lparr>lg_points = [[DFin 0, DFin 0], [DFin 1, DFin 1], [DNaN, DNaN]],
                lg_edges = Some [[0, 1]],
                lg_labels = [(''a'', Vec [True, True, False]),
                             (''b'', Vec [False, False, True])]\<rparr> = rows"
proof -
  have d: "0 < (2 :: nat)" and k: "2 < length (lm_points (the (d_landmarks v2_example)))"
    by (simp_all add: v2_example_def)
  have lm: "d_landmarks v2_example = Some (the (d_landmarks v2_example))"
    by (simp add: v2_example_def)
  from ljson_null_coordinates [OF v2_example_rect d k v2_example_null v2_example_numbers]
  obtain rows where
    r: "ljson_parse_null_values dec_env (lm_points (the (d_landmarks v2_example))) = Inr rows"
      "length rows = length (lm_points (the (d_landmarks v2_example)))"
      "rows ! 2 = replicate 2 (f_nan dec_env)" and
    v2: "\<forall>lms_dict lm r. d_landmarks lms_dict = Some lm \<and>
           lm_points lm = lm_points (the (d_landmarks v2_example)) \<and>
           parse_ljson_v2 dec_env lms_dict = Inr r \<longrightarrow> lg_points r = rows"
    by blast
  from v2 lm v2_example_parse have
    "lg_points \<lparr>lg_points = [[DFin 0, DFin 0], [DFin 1, DFin 1], [DNaN, DNaN]],
                lg_edges = Some [[0, 1]],
                lg_labels = [(''a'', Vec [True, True, False]),
                             (''b'', Vec [False, False, True])]\<rparr> = rows"
    by blast
  moreover have "length (lm_points (the (d_landmarks v2_example))) = 3"
    by (simp add: v2_example_def)
  moreover have "replicate 2 (f_nan dec_env) = [DNaN, DNaN]"
    by (simp add: dec_env_def numeral_2_eq_2)
  ultimately show ?thesis using r by auto
qed

end
